theory Spec2Isabelle
  imports Main
begin

section \<open>JavaScript values\<close>

text \<open>
  The payment protocol moves JSON around: the \<open>X-Payment\<close> header, the transaction blob
  inside it and the bodies of HTTP replies are all results of \<open>JSON.parse\<close>, typed
  \<open>any\<close> at run time whatever the TypeScript interface says. A value is therefore a
  \<open>json\<close>; \<open>undefined\<close> (a missing property) is \<open>None\<close> of \<open>jsval\<close>.

  A number is carried as the text \<open>Number.prototype.toString\<close> prints for it: the code
  under study never computes with a number it received, it only tests it for truthiness
  or turns it into a string.

  A \<open>string\<close> is a list of code units below 256, which is what \<open>char\<close> offers.
\<close>

datatype json =
    JNull
  | JBool bool
  | JNum string
  | JStr string
  | JArr "json list"
  | JObj "(string \<times> json) list"

type_synonym jsval = "json option"

text \<open>
  Everything thrown in the code under study is an \<open>Error\<close> instance (\<open>new Error\<close>, a
  \<open>TypeError\<close> or \<open>SyntaxError\<close> of the runtime, an error of the ledger SDK). The catch
  blocks read its \<open>message\<close> and, in one place, a \<open>transactionHash\<close> property.
\<close>

datatype js_error = Error (message: string) (error_transactionHash: jsval)

definition new_Error :: "string \<Rightarrow> js_error" where
  "new_Error m = Error m None"

text \<open>
  Reading a property: a \<open>TypeError\<close> on \<open>null\<close> and \<open>undefined\<close>, the own property of
  an object, and \<open>undefined\<close> on every other value (none of the property names the
  program reads is a built-in property of a string, number, boolean or array). The
  message is the one V8 prints.
\<close>

fun get_prop :: "jsval \<Rightarrow> string \<Rightarrow> js_error + jsval" where
  "get_prop None k =
     Inl (new_Error (''Cannot read properties of undefined (reading '' @ [CHR 0x27] @ k @ [CHR 0x27] @ '')''))"
| "get_prop (Some JNull) k =
     Inl (new_Error (''Cannot read properties of null (reading '' @ [CHR 0x27] @ k @ [CHR 0x27] @ '')''))"
| "get_prop (Some (JObj kvs)) k = Inr (map_of kvs k)"
| "get_prop (Some v) k = Inr None"

text \<open>Truthiness, as \<open>if (v)\<close>, \<open>!v\<close>, \<open>a || b\<close> and \<open>a && b\<close> decide it.\<close>

fun truthy :: "jsval \<Rightarrow> bool" where
  "truthy None = False"
| "truthy (Some JNull) = False"
| "truthy (Some (JBool b)) = b"
| "truthy (Some (JNum t)) = (t \<noteq> ''0'' \<and> t \<noteq> ''NaN'')"
| "truthy (Some (JStr s)) = (s \<noteq> [])"
| "truthy (Some (JArr xs)) = True"
| "truthy (Some (JObj kvs)) = True"

fun typeof_string :: "jsval \<Rightarrow> bool" where
  "typeof_string (Some (JStr s)) = True"
| "typeof_string v = False"

fun typeof_object :: "jsval \<Rightarrow> bool" where
  "typeof_object (Some JNull) = True"
| "typeof_object (Some (JArr xs)) = True"
| "typeof_object (Some (JObj kvs)) = True"
| "typeof_object v = False"

text \<open>
  \<open>ToString\<close>, the conversion behind \<open>JSON.parse(v)\<close> for a \<open>v\<close> that is not a
  string, behind string concatenation and behind template literals. An array joins its
  elements with commas, \<open>null\<close> elements printing as nothing.
\<close>

fun ToString :: "json \<Rightarrow> string" and join_elements :: "json list \<Rightarrow> string" where
  "ToString JNull = ''null''"
| "ToString (JBool b) = (if b then ''true'' else ''false'')"
| "ToString (JNum t) = t"
| "ToString (JStr s) = s"
| "ToString (JArr xs) = join_elements xs"
| "ToString (JObj kvs) = ''[object Object]''"
| "join_elements [] = []"
| "join_elements [x] = (if x = JNull then [] else ToString x)"
| "join_elements (x # y # ys) =
     (if x = JNull then [] else ToString x) @ '','' @ join_elements (y # ys)"

definition String_of :: "jsval \<Rightarrow> string" where
  "String_of v = (case v of None \<Rightarrow> ''undefined'' | Some j \<Rightarrow> ToString j)"

text \<open>\<open>s.includes(sub)\<close> and \<open>s.startsWith(sub)\<close>.\<close>

definition startsWith :: "string \<Rightarrow> string \<Rightarrow> bool" where
  "startsWith s sub = (take (length sub) s = sub)"

fun str_includes :: "string \<Rightarrow> string \<Rightarrow> bool" where
  "str_includes [] sub = (sub = [])"
| "str_includes (c # cs) sub = (startsWith (c # cs) sub \<or> str_includes cs sub)"

text \<open>
  \<open>Buffer.from(s).toString('hex')\<close>: the UTF-8 bytes of the string, two lower-case hex
  digits each. A code unit below 128 is one byte, one from 128 to 255 is two.
\<close>

definition hex_digit :: "nat \<Rightarrow> char" where
  "hex_digit n = ''0123456789abcdef'' ! n"

definition utf8 :: "char \<Rightarrow> nat list" where
  "utf8 c = (let n = of_char c in
     if n < 128 then [n] else [192 + n div 64, 128 + n mod 64])"

definition hex_byte :: "nat \<Rightarrow> string" where
  "hex_byte b = [hex_digit (b div 16), hex_digit (b mod 16)]"

definition Buffer_hex :: "string \<Rightarrow> string" where
  "Buffer_hex s = concat (map hex_byte (concat (map utf8 s)))"

text \<open>
  The decimal text of an integer, as string concatenation prints \<open>Date.now()\<close>.
\<close>

fun dec_nat :: "nat \<Rightarrow> string" where
  "dec_nat n =
     (if n < 10 then [''0123456789'' ! n]
      else dec_nat (n div 10) @ [''0123456789'' ! (n mod 10)])"

declare dec_nat.simps [simp del]

definition dec_int :: "int \<Rightarrow> string" where
  "dec_int i = (if i < 0 then ''-'' @ dec_nat (nat (- i)) else dec_nat (nat i))"

section \<open>The world outside the program\<close>

text \<open>
  \<open>Date.now()\<close> is a reading of a clock: the \<open>k\<close>-th reading of a run is \<open>clock w k\<close>,
  and \<open>reads w\<close> counts the readings taken so far. Nothing is assumed about the clock.
  Each component extends this state with a log of the calls it makes to the network; for
  the facilitator, every call that leaves the process for the ledger is appended to
  \<open>net_log\<close>.
\<close>

text \<open>
  The signature handed to the ledger: the object the code builds around a raw hex
  signature (its \<open>public_key\<close> may be \<open>undefined\<close>), or a value as it was received or
  parsed.
\<close>

datatype signature_value =
    Ed25519Hex jsval string
  | Given jsval

datatype net_call =
    RestPost json
  | SdkSubmit jsval signature_value
  | WaitFor jsval

record clock_state =
  clock :: "nat \<Rightarrow> int"
  reads :: nat

record world = clock_state +
  net_log :: "net_call list"

definition Date_now :: "'a clock_state_scheme \<Rightarrow> int \<times> 'a clock_state_scheme" where
  "Date_now w = (clock w (reads w), w\<lparr>reads := Suc (reads w)\<rparr>)"

definition net_send :: "net_call \<Rightarrow> world \<Rightarrow> world" where
  "net_send c w = w\<lparr>net_log := net_log w @ [c]\<rparr>"

fun is_submission :: "net_call \<Rightarrow> bool" where
  "is_submission (RestPost body) = True"
| "is_submission (SdkSubmit tx sig) = True"
| "is_submission (WaitFor h) = False"

definition submissions :: "world \<Rightarrow> nat" where
  "submissions w = length (filter is_submission (net_log w))"

text \<open>
  What the fullnode's REST endpoint answers to \<open>fetch\<close>: the call rejects, or the reply's
  \<open>json()\<close> rejects, or there is a reply with its \<open>ok\<close> flag, its \<open>statusText\<close> and its
  parsed body.
\<close>

datatype rest_reply =
    FetchFailed js_error
  | JsonFailed js_error
  | Reply bool string json

text \<open>
  The runtime and the ledger, as the program sees them. \<open>JSON_parse\<close> gives the
  \<open>SyntaxError\<close> or the value; \<open>rest_payload\<close> is the conversion of a wallet-signed
  transaction's byte objects into the body of the REST submission (lines 196 to 259 of
  aptos-facilitator.ts), which computes a value from its three inputs or throws a
  \<open>TypeError\<close> and has no other effect; \<open>fetch_post\<close>, \<open>sdk_submit\<close> and
  \<open>waitForTransaction\<close> are the network, answering in the light of every call made
  before. All theorems hold for every runtime.
\<close>

record runtime =
  JSON_parse :: "string \<Rightarrow> js_error + json"
  JSON_stringify :: "json \<Rightarrow> string"
  rest_payload :: "json \<Rightarrow> jsval \<Rightarrow> signature_value \<Rightarrow> js_error + json"
  fetch_post :: "net_call list \<Rightarrow> json \<Rightarrow> rest_reply"
  sdk_submit :: "net_call list \<Rightarrow> jsval \<Rightarrow> signature_value \<Rightarrow> js_error + jsval"
  waitForTransaction :: "net_call list \<Rightarrow> jsval \<Rightarrow> js_error option"

section \<open>The facilitator (aptos-facilitator.ts)\<close>

datatype aptos_network = Mainnet | Testnet | Devnet

record FacilitatorConfig =
  aptosNetwork :: aptos_network
  port :: nat
  mockMode :: "bool option"

record PaymentVerification =
  isValid :: bool
  transactionHash :: jsval
  error :: "string option"
  verifiedAt :: int

text \<open>\<open>verifySignature\<close> logs its arguments and returns \<open>true\<close>.\<close>

definition verifySignature :: "jsval \<Rightarrow> jsval \<Rightarrow> jsval \<Rightarrow> jsval \<Rightarrow> bool" where
  "verifySignature transaction signature publicKey address = True"

text \<open>
  \<open>Buffer.from(v + Date.now())\<close>: with a string, an array or an object on the left the
  sum is a string; with anything else it is a number, which \<open>Buffer.from\<close> refuses (the
  message is Node's, without the received value that Node appends in parentheses).
\<close>

fun Buffer_from_plus :: "jsval \<Rightarrow> int \<Rightarrow> js_error + string" where
  "Buffer_from_plus (Some (JStr s)) now = Inr (s @ dec_int now)"
| "Buffer_from_plus (Some (JArr xs)) now = Inr (ToString (JArr xs) @ dec_int now)"
| "Buffer_from_plus (Some (JObj kvs)) now = Inr (ToString (JObj kvs) @ dec_int now)"
| "Buffer_from_plus v now =
     Inl (new_Error ''The first argument must be of type string or an instance of Buffer, ArrayBuffer, or Array or an Array-like Object. Received type number'')"

definition hash_of :: "string \<Rightarrow> string" where
  "hash_of s = ''0x'' @ take 64 (Buffer_hex s)"

subsection \<open>submitTransaction\<close>

text \<open>The parsing steps, up to the choice of what is submitted (lines 129 to 180).\<close>

definition parse_transaction :: "runtime \<Rightarrow> json \<Rightarrow> js_error + json" where
  "parse_transaction rt transaction =
     (case transaction of
        JStr s \<Rightarrow>
          (case JSON_parse rt s of
             Inl e \<Rightarrow> Inl (new_Error (''Invalid transaction JSON: '' @ message e))
           | Inr v \<Rightarrow> Inr v)
      | _ \<Rightarrow> Inr transaction)"

definition parse_signature :: "runtime \<Rightarrow> json \<Rightarrow> jsval \<Rightarrow> js_error + signature_value" where
  "parse_signature rt parsedTransaction signature =
     (case signature of
        Some (JStr s) \<Rightarrow>
          (if startsWith s ''0x'' then
             (case get_prop (Some parsedTransaction) ''address'' of
                Inl e \<Rightarrow> Inl e
              | Inr a \<Rightarrow> Inr (Ed25519Hex a s))
           else
             (case JSON_parse rt s of
                Inl e \<Rightarrow> Inl (new_Error (''Invalid signature format: '' @ message e))
              | Inr v \<Rightarrow> Inr (Given (Some v))))
      | _ \<Rightarrow> Inr (Given signature))"

definition wallet_message_error :: string where
  "wallet_message_error = ''Real mode requires actual blockchain transactions, not wallet message signatures. Please use X402Client to create proper Aptos transactions.''"

definition check_not_wallet_message :: "json \<Rightarrow> js_error + unit" where
  "check_not_wallet_message parsedTransaction =
     (case get_prop (Some parsedTransaction) ''prefix'' of
        Inl e \<Rightarrow> Inl e
      | Inr prefix \<Rightarrow>
          (if prefix = Some (JStr ''APTOS'') then
             (case get_prop (Some parsedTransaction) ''message'' of
                Inl e \<Rightarrow> Inl e
              | Inr m \<Rightarrow> if truthy m then Inl (new_Error wallet_message_error) else Inr ())
           else Inr ()))"

text \<open>\<open>parsedSignature.authenticator || parsedSignature\<close>.\<close>

fun authenticator_or_self :: "signature_value \<Rightarrow> js_error + signature_value" where
  "authenticator_or_self (Ed25519Hex a s) = Inr (Ed25519Hex a s)"
| "authenticator_or_self (Given v) =
     (case get_prop v ''authenticator'' of
        Inl e \<Rightarrow> Inl e
      | Inr au \<Rightarrow> Inr (if truthy au then Given au else Given v))"

text \<open>\<open>transactionToSubmit.payload?.entryFunction\<close>, read from a value that is not \<open>null\<close>.\<close>

definition payload_entryFunction :: "jsval \<Rightarrow> jsval" where
  "payload_entryFunction transactionToSubmit =
     (case get_prop transactionToSubmit ''payload'' of
        Inl e \<Rightarrow> None
      | Inr None \<Rightarrow> None
      | Inr (Some JNull) \<Rightarrow> None
      | Inr (Some p) \<Rightarrow> (case get_prop (Some p) ''entryFunction'' of Inl e \<Rightarrow> None | Inr f \<Rightarrow> f))"

text \<open>
  What is sent, and by which road: the REST endpoint for a wallet-signed transaction
  whose \<open>rawTransaction\<close> is an object with an entry function, the SDK otherwise.
\<close>

datatype submission_plan =
    ByRest json
  | BySdk jsval signature_value

definition plan_submission :: "runtime \<Rightarrow> json \<Rightarrow> jsval \<Rightarrow> js_error + submission_plan" where
  "plan_submission rt transaction signature =
     (case parse_transaction rt transaction of
        Inl e \<Rightarrow> Inl e
      | Inr parsedTransaction \<Rightarrow>
     (case parse_signature rt parsedTransaction signature of
        Inl e \<Rightarrow> Inl e
      | Inr parsedSignature \<Rightarrow>
     (case check_not_wallet_message parsedTransaction of
        Inl e \<Rightarrow> Inl e
      | Inr u \<Rightarrow>
     (case get_prop (Some parsedTransaction) ''rawTransaction'' of
        Inl e \<Rightarrow> Inl e
      | Inr rawTransaction \<Rightarrow>
     (case (if truthy rawTransaction
            then (case authenticator_or_self parsedSignature of
                    Inl e \<Rightarrow> Inl e
                  | Inr s \<Rightarrow> Inr (rawTransaction, s))
            else Inr (Some parsedTransaction, parsedSignature)) of
        Inl e \<Rightarrow> Inl e
      | Inr (transactionToSubmit, signatureToSubmit) \<Rightarrow>
          (if truthy rawTransaction \<and> typeof_object rawTransaction
              \<and> truthy (payload_entryFunction transactionToSubmit)
           then (case rest_payload rt parsedTransaction transactionToSubmit signatureToSubmit of
                   Inl e \<Rightarrow> Inl e
                 | Inr submissionPayload \<Rightarrow> Inr (ByRest submissionPayload))
           else Inr (BySdk transactionToSubmit signatureToSubmit)))))))"

text \<open>The submission itself (lines 265 to 287): one call to the network.\<close>

definition rest_result :: "rest_reply \<Rightarrow> js_error + jsval" where
  "rest_result r =
     (case r of
        FetchFailed e \<Rightarrow> Inl e
      | JsonFailed e \<Rightarrow> Inl e
      | Reply ok statusText result \<Rightarrow>
          (if \<not> ok then
             (case get_prop (Some result) ''message'' of
                Inl e \<Rightarrow> Inl e
              | Inr m \<Rightarrow>
                  Inl (new_Error (''Transaction submission failed: ''
                        @ (if truthy m then String_of m else statusText))))
           else get_prop (Some result) ''hash''))"

definition submit_plan :: "runtime \<Rightarrow> submission_plan \<Rightarrow> world \<Rightarrow> (js_error + jsval) \<times> world" where
  "submit_plan rt plan w =
     (case plan of
        ByRest submissionPayload \<Rightarrow>
          (rest_result (fetch_post rt (net_log w) submissionPayload),
           net_send (RestPost submissionPayload) w)
      | BySdk tx sig \<Rightarrow>
          (sdk_submit rt (net_log w) tx sig,
           net_send (SdkSubmit tx sig) w))"

text \<open>The \<open>try\<close> block of \<open>submitTransaction\<close>: plan, submit, wait for confirmation.\<close>

definition submitTransaction_try ::
    "runtime \<Rightarrow> json \<Rightarrow> jsval \<Rightarrow> world \<Rightarrow> (js_error + jsval) \<times> world" where
  "submitTransaction_try rt transaction signature w =
     (case plan_submission rt transaction signature of
        Inl e \<Rightarrow> (Inl e, w)
      | Inr plan \<Rightarrow>
          (case submit_plan rt plan w of
             (Inl e, w1) \<Rightarrow> (Inl e, w1)
           | (Inr txHash, w1) \<Rightarrow>
               (case waitForTransaction rt (net_log w1) txHash of
                  Some e \<Rightarrow> (Inl e, net_send (WaitFor txHash) w1)
                | None \<Rightarrow> (Inr txHash, net_send (WaitFor txHash) w1))))"

text \<open>
  The \<open>catch\<close> block: an error whose message mentions a timeout or a confirmation is
  answered with a hash all the same, the error's own or one made of the transaction and
  the time; any other error is thrown on.
\<close>

definition submitTransaction_catch ::
    "runtime \<Rightarrow> json \<Rightarrow> js_error \<Rightarrow> world \<Rightarrow> (js_error + jsval) \<times> world" where
  "submitTransaction_catch rt transaction e w =
     (if str_includes (message e) ''timeout'' \<or> str_includes (message e) ''confirmation'' then
        (if truthy (error_transactionHash e) then (Inr (error_transactionHash e), w)
         else (let (now, w1) = Date_now w
               in (Inr (Some (JStr (hash_of (JSON_stringify rt transaction @ dec_int now)))), w1)))
      else (Inl (new_Error (''Failed to submit transaction: '' @ message e)), w))"

definition submitTransaction ::
    "runtime \<Rightarrow> json \<Rightarrow> jsval \<Rightarrow> world \<Rightarrow> (js_error + jsval) \<times> world" where
  "submitTransaction rt transaction signature w =
     (case submitTransaction_try rt transaction signature w of
        (Inr h, w1) \<Rightarrow> (Inr h, w1)
      | (Inl e, w1) \<Rightarrow> submitTransaction_catch rt transaction e w1)"

subsection \<open>createRealVerification and processPayment\<close>

definition invalid_result :: "string \<Rightarrow> world \<Rightarrow> PaymentVerification \<times> world" where
  "invalid_result reason w =
     (let (now, w1) = Date_now w
      in (\<lparr>isValid = False, transactionHash = None, error = Some reason, verifiedAt = now\<rparr>, w1))"

definition valid_result :: "jsval \<Rightarrow> world \<Rightarrow> PaymentVerification \<times> world" where
  "valid_result h w =
     (let (now, w1) = Date_now w
      in (\<lparr>isValid = True, transactionHash = h, error = None, verifiedAt = now\<rparr>, w1))"

text \<open>\<open>JSON.parse(paymentRequest.transaction)\<close>, whatever the property holds.\<close>

definition parse_transaction_field :: "runtime \<Rightarrow> jsval \<Rightarrow> js_error + json" where
  "parse_transaction_field rt paymentRequest =
     (case get_prop paymentRequest ''transaction'' of
        Inl e \<Rightarrow> Inl e
      | Inr t \<Rightarrow> JSON_parse rt (String_of t))"

definition prop_or_undefined :: "jsval \<Rightarrow> string \<Rightarrow> jsval" where
  "prop_or_undefined v k = (case get_prop v k of Inl e \<Rightarrow> None | Inr x \<Rightarrow> x)"

definition createRealVerification ::
    "runtime \<Rightarrow> jsval \<Rightarrow> world \<Rightarrow> PaymentVerification \<times> world" where
  "createRealVerification rt paymentRequest w =
     (case get_prop paymentRequest ''address'' of
        Inl e \<Rightarrow> invalid_result (message e) w
      | Inr address \<Rightarrow>
     (case parse_transaction_field rt paymentRequest of
        Inl e \<Rightarrow> invalid_result (message e) w
      | Inr transaction \<Rightarrow>
          (if \<not> verifySignature (prop_or_undefined paymentRequest ''transaction'')
                  (prop_or_undefined paymentRequest ''signature'')
                  (prop_or_undefined paymentRequest ''publicKey'') address
           then invalid_result ''Invalid signature'' w
           else
             (case submitTransaction rt transaction (prop_or_undefined paymentRequest ''signature'') w of
                (Inl e, w1) \<Rightarrow> invalid_result (message e) w1
              | (Inr h, w1) \<Rightarrow> valid_result h w1))))"

definition processPayment ::
    "FacilitatorConfig \<Rightarrow> runtime \<Rightarrow> jsval \<Rightarrow> world \<Rightarrow> PaymentVerification \<times> world" where
  "processPayment config rt paymentRequest w =
     (case get_prop paymentRequest ''address'' of
        Inl e \<Rightarrow> invalid_result (message e) w
      | Inr address \<Rightarrow>
          (if mockMode config \<noteq> Some True then createRealVerification rt paymentRequest w
           else
             (case parse_transaction_field rt paymentRequest of
                Inl e \<Rightarrow> invalid_result (message e) w
              | Inr transaction \<Rightarrow>
                  (if \<not> verifySignature (prop_or_undefined paymentRequest ''transaction'')
                          (prop_or_undefined paymentRequest ''signature'')
                          (prop_or_undefined paymentRequest ''publicKey'') address
                   then invalid_result ''Invalid signature'' w
                   else
                     (let (now, w1) = Date_now w in
                      (case Buffer_from_plus address now of
                         Inl e \<Rightarrow> invalid_result (message e) w1
                       | Inr s \<Rightarrow> valid_result (Some (JStr (hash_of s))) w1))))))"

section \<open>Route matching\<close>

text \<open>
  A route table is a JavaScript object; it is modelled by \<open>Object.entries\<close> of it, the
  list of its own keys with their values, in insertion order. \<open>routes[path]\<close> is then
  \<open>map_of routes path\<close> (a request path starts with a slash or with the method, so it is
  never the name of a property that objects inherit).

  A key with a \<open>*\<close> is turned into a regular expression by replacing every \<open>*\<close> with
  \<open>.*\<close> and anchoring the result with \<open>^\<close> and \<open>$\<close>. Whatever else the key holds is
  regular-expression syntax too. The model covers the keys made of ordinary characters,
  \<open>.\<close> and \<open>*\<close>; a key with another special character of the regular-expression
  syntax is outside it, and matching against such a key answers \<open>OutsideFragment\<close>.
\<close>

datatype rx = Lit char | AnyChar | AnyRun

definition line_terminator :: "char \<Rightarrow> bool" where
  "line_terminator c = (c = CHR 0x0A \<or> c = CHR 0x0D)"

definition regex_special :: "char \<Rightarrow> bool" where
  "regex_special c = (c \<in> set ([CHR 0x5C] @ ''^$+?()[]{}|''))"

fun compile_route :: "string \<Rightarrow> rx list option" where
  "compile_route [] = Some []"
| "compile_route (c # cs) =
     (if regex_special c then None
      else (case compile_route cs of
              None \<Rightarrow> None
            | Some r \<Rightarrow>
                Some ((if c = CHR ''*'' then AnyRun else if c = CHR ''.'' then AnyChar else Lit c) # r)))"

text \<open>\<open>regex.test(path)\<close> for an anchored expression: the whole path has to match.\<close>

fun rx_match :: "rx list \<Rightarrow> string \<Rightarrow> bool" where
  "rx_match [] s = (s = [])"
| "rx_match (Lit c # r) [] = False"
| "rx_match (Lit c # r) (d # ds) = (c = d \<and> rx_match r ds)"
| "rx_match (AnyChar # r) [] = False"
| "rx_match (AnyChar # r) (d # ds) = (\<not> line_terminator d \<and> rx_match r ds)"
| "rx_match (AnyRun # r) [] = rx_match r []"
| "rx_match (AnyRun # r) (d # ds) =
     (rx_match r (d # ds) \<or> (\<not> line_terminator d \<and> rx_match (AnyRun # r) ds))"

datatype 'r lookup = Matched 'r | NoMatch | OutsideFragment

fun wildcard_lookup :: "string \<Rightarrow> (string \<times> 'r) list \<Rightarrow> 'r lookup" where
  "wildcard_lookup p [] = NoMatch"
| "wildcard_lookup p ((routePath, routeConfig) # rest) =
     (if CHR ''*'' \<in> set routePath then
        (case compile_route routePath of
           None \<Rightarrow> OutsideFragment
         | Some r \<Rightarrow> if rx_match r p then Matched routeConfig else wildcard_lookup p rest)
      else wildcard_lookup p rest)"

text \<open>\<open>findMatchingRoute\<close> of payment-middleware.ts: the exact key first, then the wildcards.\<close>

definition findMatchingRoute :: "string \<Rightarrow> (string \<times> 'r) list \<Rightarrow> 'r lookup" where
  "findMatchingRoute p routes =
     (case map_of routes p of
        Some routeConfig \<Rightarrow> Matched routeConfig
      | None \<Rightarrow> wildcard_lookup p routes)"

text \<open>
  \<open>PaymentHandler.isPaymentRequired\<close> and \<open>PaymentHandler.getPaymentConfig\<close> of the server
  package run the same search; the first answers whether there is a match (\<open>None\<close> when
  the search meets a key outside the fragment).
\<close>

definition getPaymentConfig :: "string \<Rightarrow> (string \<times> 'r) list \<Rightarrow> 'r lookup" where
  "getPaymentConfig route paymentRoutes =
     (case map_of paymentRoutes route of
        Some config \<Rightarrow> Matched config
      | None \<Rightarrow> wildcard_lookup route paymentRoutes)"

definition isPaymentRequired :: "string \<Rightarrow> (string \<times> 'r) list \<Rightarrow> bool option" where
  "isPaymentRequired route paymentRoutes =
     (case map_of paymentRoutes route of
        Some config \<Rightarrow> Some True
      | None \<Rightarrow>
          (case wildcard_lookup route paymentRoutes of
             Matched config \<Rightarrow> Some True
           | NoMatch \<Rightarrow> Some False
           | OutsideFragment \<Rightarrow> None))"

section \<open>The gateway of the facilitator package (payment-middleware.ts)\<close>

text \<open>
  A price is a string of minor units, or an amount with its asset. A route carries its
  price; the other fields of the two \<open>PaymentRoute\<close> interfaces are never read.
\<close>

record asset =
  asset_address :: string
  asset_decimals :: nat

datatype price = Price string | PriceOf string "asset option"

record PaymentRoute =
  price :: price
  network :: "string option"
  description :: "string option"

record PaymentPayload =
  amount :: price
  token :: string
  recipient :: string
  deadline :: int
  nonce :: "string option"

datatype response_body =
    PaymentRequired PaymentPayload string nat
  | ErrorBody string

text \<open>
  What a middleware does with a request: it calls \<open>next()\<close>, with the verification it
  attached to the request if it made one, or it answers with a status and a body.
\<close>

datatype 'v outcome =
    Next "'v option"
  | Respond nat response_body
  | OutsideModel

record Request =
  request_method :: string
  path :: string
  x_payment :: "string option"

definition AptosCoin :: string where
  "AptosCoin = ''0x1::aptos_coin::AptosCoin''"

text \<open>
  \<open>if (!paymentHeader)\<close>: the header counts as present when it is there and not the
  empty string.
\<close>

definition header_value :: "string option \<Rightarrow> string option" where
  "header_value h = (case h of None \<Rightarrow> None | Some v \<Rightarrow> if v = [] then None else Some v)"

definition error_text :: "string option \<Rightarrow> string" where
  "error_text e = (case e of None \<Rightarrow> ''undefined'' | Some m \<Rightarrow> m)"

definition payment_required_402 ::
    "string \<Rightarrow> PaymentRoute \<Rightarrow> string \<Rightarrow> world \<Rightarrow> PaymentVerification outcome \<times> world" where
  "payment_required_402 payTo route msg w =
     (let (now, w1) = Date_now w
      in (Respond 402
            (PaymentRequired
               \<lparr>amount = price route, token = AptosCoin, recipient = payTo,
                deadline = now + 5 * 60 * 1000, nonce = None\<rparr>
               msg 5),
          w1))"

text \<open>
  The middleware function, for a facilitator configuration. \<open>createPaymentMiddleware\<close>
  builds its facilitator in mock mode; the \<open>customPaymentMiddleware\<close> of the server that
  takes real payments is the same function, line for line, around a facilitator in real
  mode.
\<close>

definition middleware ::
    "FacilitatorConfig \<Rightarrow> string \<Rightarrow> (string \<times> PaymentRoute) list \<Rightarrow> runtime \<Rightarrow> Request \<Rightarrow> world
      \<Rightarrow> PaymentVerification outcome \<times> world" where
  "middleware config payTo routes rt req w =
     (case findMatchingRoute (path req) routes of
        OutsideFragment \<Rightarrow> (OutsideModel, w)
      | NoMatch \<Rightarrow> (Next None, w)
      | Matched route \<Rightarrow>
          (case header_value (x_payment req) of
             None \<Rightarrow>
               payment_required_402 payTo route ''Payment required to access this resource'' w
           | Some paymentHeader \<Rightarrow>
             (case JSON_parse rt paymentHeader of
                Inl e \<Rightarrow> (Respond 400 (ErrorBody ''Invalid payment header format''), w)
              | Inr paymentRequest \<Rightarrow>
                  (let (verification, w1) = processPayment config rt (Some paymentRequest) w in
                   if \<not> isValid verification then
                     payment_required_402 payTo route
                       (''Payment verification failed: '' @ error_text (error verification)) w1
                   else (Next (Some verification), w1)))))"

definition createPaymentMiddleware ::
    "string \<Rightarrow> (string \<times> PaymentRoute) list \<Rightarrow> string \<Rightarrow> runtime \<Rightarrow> Request \<Rightarrow> world
      \<Rightarrow> PaymentVerification outcome \<times> world" where
  "createPaymentMiddleware payTo routes options =
     middleware \<lparr>aptosNetwork = Testnet, port = 3000, mockMode = Some True\<rparr> payTo routes"

definition customPaymentMiddleware ::
    "string \<Rightarrow> (string \<times> PaymentRoute) list \<Rightarrow> string \<Rightarrow> runtime \<Rightarrow> Request \<Rightarrow> world
      \<Rightarrow> PaymentVerification outcome \<times> world" where
  "customPaymentMiddleware payTo routes options =
     middleware \<lparr>aptosNetwork = Testnet, port = 4021, mockMode = Some False\<rparr> payTo routes"

section \<open>The gateway of the server package (payment-handler.ts and its middleware)\<close>

record ServerConfig =
  server_port :: nat
  facilitatorUrl :: string
  paymentAddress :: string
  server_mockMode :: "bool option"

text \<open>
  The body \<open>verifyPayment\<close> posts to the facilitator: five properties of the parsed
  header, each possibly \<open>undefined\<close>.
\<close>

type_synonym verify_body = "(string \<times> jsval) list"

text \<open>
  The server's state: the clock, the number of \<open>Math.random()\<close> draws taken, and the
  bodies posted to the facilitator. Its runtime: \<open>JSON.parse\<close>, the text
  \<open>Math.random().toString(36).substring(2, 15)\<close> of the \<open>k\<close>-th draw, and the facilitator
  behind \<open>axios.post\<close>, which gives the reply's data or rejects.
\<close>

record server_world = clock_state +
  draws :: nat
  verify_log :: "verify_body list"

record server_runtime =
  server_JSON_parse :: "string \<Rightarrow> js_error + json"
  random36 :: "nat \<Rightarrow> string"
  axios_post :: "verify_body list \<Rightarrow> string \<Rightarrow> verify_body \<Rightarrow> js_error + json"

definition generateNonce :: "server_runtime \<Rightarrow> server_world \<Rightarrow> string \<times> server_world" where
  "generateNonce rt w =
     (random36 rt (draws w) @ random36 rt (Suc (draws w)), w\<lparr>draws := Suc (Suc (draws w))\<rparr>)"

definition price_amount :: "price \<Rightarrow> string" where
  "price_amount p = (case p of Price a \<Rightarrow> a | PriceOf a ast \<Rightarrow> a)"

definition price_token :: "price \<Rightarrow> string" where
  "price_token p =
     (case p of
        Price a \<Rightarrow> AptosCoin
      | PriceOf a None \<Rightarrow> AptosCoin
      | PriceOf a (Some ast) \<Rightarrow> if asset_address ast = [] then AptosCoin else asset_address ast)"

definition createPaymentRequired ::
    "ServerConfig \<Rightarrow> server_runtime \<Rightarrow> string \<Rightarrow> price \<Rightarrow> server_world
      \<Rightarrow> (PaymentPayload \<times> string \<times> nat) \<times> server_world" where
  "createPaymentRequired config rt route p w =
     (let (now, w1) = Date_now w;
          (n, w2) = generateNonce rt w1
      in ((\<lparr>amount = Price (price_amount p), token = price_token p,
             recipient = paymentAddress config, deadline = now + 5 * 60 * 1000,
             nonce = Some n\<rparr>,
           ''Payment required to access '' @ route, 5), w2))"

text \<open>
  A verification is made by the server itself (in mock mode, or when verifying throws)
  or is whatever data the facilitator replied.
\<close>

datatype verdict = Local PaymentVerification | Remote json

definition createMockVerification :: "server_world \<Rightarrow> PaymentVerification \<times> server_world" where
  "createMockVerification w =
     (let (t, w1) = Date_now w;
          (now, w2) = Date_now w1
      in (\<lparr>isValid = True, transactionHash = Some (JStr (hash_of (dec_int t))),
           error = None, verifiedAt = now\<rparr>, w2))"

definition verify_failed :: "js_error \<Rightarrow> server_world \<Rightarrow> verdict \<times> server_world" where
  "verify_failed e w =
     (let (now, w1) = Date_now w
      in (Local \<lparr>isValid = False, transactionHash = None, error = Some (message e),
                 verifiedAt = now\<rparr>, w1))"

definition verifyPayment ::
    "ServerConfig \<Rightarrow> server_runtime \<Rightarrow> string \<Rightarrow> server_world \<Rightarrow> verdict \<times> server_world" where
  "verifyPayment config rt paymentHeader w =
     (if server_mockMode config = Some True then
        (let (v, w1) = createMockVerification w in (Local v, w1))
      else
        (case server_JSON_parse rt paymentHeader of
           Inl e \<Rightarrow> verify_failed e w
         | Inr paymentRequest \<Rightarrow>
             (case get_prop (Some paymentRequest) ''transaction'' of
                Inl e \<Rightarrow> verify_failed e w
              | Inr t \<Rightarrow>
                  (let body = [(''transaction'', t),
                               (''signature'', prop_or_undefined (Some paymentRequest) ''signature''),
                               (''publicKey'', prop_or_undefined (Some paymentRequest) ''publicKey''),
                               (''address'', prop_or_undefined (Some paymentRequest) ''address''),
                               (''timestamp'', prop_or_undefined (Some paymentRequest) ''timestamp'')];
                       w1 = w\<lparr>verify_log := verify_log w @ [body]\<rparr>
                   in (case axios_post rt (verify_log w) (facilitatorUrl config @ ''/verify'') body of
                         Inl e \<Rightarrow> verify_failed e w1
                       | Inr data \<Rightarrow> (Remote data, w1))))))"

text \<open>\<open>verification.isValid\<close> and \<open>verification.error\<close>, read from either kind.\<close>

definition verdict_isValid :: "verdict \<Rightarrow> js_error + bool" where
  "verdict_isValid v =
     (case v of
        Local r \<Rightarrow> Inr (isValid r)
      | Remote j \<Rightarrow> (case get_prop (Some j) ''isValid'' of Inl e \<Rightarrow> Inl e | Inr b \<Rightarrow> Inr (truthy b)))"

definition verdict_error_text :: "verdict \<Rightarrow> string" where
  "verdict_error_text v =
     (case v of
        Local r \<Rightarrow> error_text (error r)
      | Remote j \<Rightarrow> String_of (prop_or_undefined (Some j) ''error''))"

definition internal_error :: response_body where
  "internal_error = ErrorBody ''Internal server error in payment processing''"

definition challenge_response ::
    "ServerConfig \<Rightarrow> server_runtime \<Rightarrow> string \<Rightarrow> (string \<times> PaymentRoute) list \<Rightarrow> string option
      \<Rightarrow> server_world \<Rightarrow> verdict outcome \<times> server_world" where
  "challenge_response config rt route paymentRoutes msg w =
     (case getPaymentConfig route paymentRoutes of
        OutsideFragment \<Rightarrow> (OutsideModel, w)
      | NoMatch \<Rightarrow> (Respond 500 internal_error, w)
      | Matched paymentConfig \<Rightarrow>
          (let ((payment, message0, retryAfter), w1) =
                 createPaymentRequired config rt route (price paymentConfig) w
           in (Respond 402
                 (PaymentRequired payment (case msg of None \<Rightarrow> message0 | Some m \<Rightarrow> m) retryAfter),
               w1)))"

definition createX402Middleware ::
    "ServerConfig \<Rightarrow> (string \<times> PaymentRoute) list \<Rightarrow> server_runtime \<Rightarrow> Request \<Rightarrow> server_world
      \<Rightarrow> verdict outcome \<times> server_world" where
  "createX402Middleware config paymentRoutes rt req w =
     (let route = request_method req @ '' '' @ path req in
      (case isPaymentRequired route paymentRoutes of
         None \<Rightarrow> (OutsideModel, w)
       | Some False \<Rightarrow> (Next None, w)
       | Some True \<Rightarrow>
           (case header_value (x_payment req) of
              None \<Rightarrow> challenge_response config rt route paymentRoutes None w
            | Some paymentHeader \<Rightarrow>
                (let (verification, w1) = verifyPayment config rt paymentHeader w in
                 (case verdict_isValid verification of
                    Inl e \<Rightarrow> (Respond 500 internal_error, w1)
                  | Inr ok \<Rightarrow>
                      (if \<not> ok then
                         challenge_response config rt route paymentRoutes
                           (Some (''Payment verification failed: '' @ verdict_error_text verification)) w1
                       else (Next (Some verification), w1)))))))"

section \<open>The client (X402Client and AptosUtils)\<close>

record AptosAccount =
  account_address :: string
  account_publicKey :: string
  account_privateKey :: string

record X402ClientConfig =
  client_network :: aptos_network
  defaultTimeout :: "nat option"
  maxRetries :: "nat option"

record RequestOptions =
  opt_method :: "string option"
  opt_headers :: "(string \<times> string) list option"
  opt_body :: jsval
  opt_timeout :: "nat option"

text \<open>The configuration handed to \<open>axios\<close>; \<open>validateStatus\<close> is always \<open>status < 500\<close>.\<close>

record http_request =
  req_method :: string
  req_url :: string
  req_headers :: "(string \<times> string) list"
  req_timeout :: nat
  req_data :: jsval

datatype http_reply =
    NoReply string
  | HttpReply nat string json

text \<open>
  What the client throws: an \<open>AxiosError\<close> (with the response, if there was one) or any
  other error. The errors of the Aptos SDK are of its own classes, not of axios.
\<close>

datatype thrown =
    AxiosError string "(nat \<times> string \<times> json) option"
  | Thrown js_error

fun thrown_message :: "thrown \<Rightarrow> string" where
  "thrown_message (AxiosError m r) = m"
| "thrown_message (Thrown e) = message e"

record client_world = clock_state +
  http_log :: "http_request list"

text \<open>
  The client's runtime: the HTTP transport behind \<open>axios\<close>; \<open>BigInt(v)\<close>, which gives an
  integer or throws; the comparison \<open>v <= n\<close> of a value with a number; the Aptos SDK,
  which reads a balance, derives the public key of a private key, and builds a transfer,
  each of which may throw; and \<open>JSON.stringify\<close>, on the proof (strings and a number) and
  on the transfer the SDK built, where it throws if a big integer of the transfer does not
  print. The transfer is carried as a value, its byte arrays as objects of bytes and its
  big integers as their decimal texts.
\<close>

record client_runtime =
  http :: "http_request list \<Rightarrow> http_request \<Rightarrow> http_reply"
  BigInt :: "jsval \<Rightarrow> int option"
  less_eq_number :: "jsval \<Rightarrow> int \<Rightarrow> bool"
  getAccountCoinAmount :: "http_request list \<Rightarrow> string \<Rightarrow> jsval \<Rightarrow> js_error + int"
  publicKey_of :: "string \<Rightarrow> js_error + string"
  build_simple :: "http_request list \<Rightarrow> string \<Rightarrow> jsval \<Rightarrow> jsval \<Rightarrow> jsval \<Rightarrow> js_error + json"
  stringify_transaction :: "json \<Rightarrow> js_error + string"
  client_JSON_stringify :: "json \<Rightarrow> string"

text \<open>\<open>{...base, ...extra}\<close> on header objects: a key of \<open>extra\<close> replaces the same key of \<open>base\<close>.\<close>

fun set_header :: "string \<Rightarrow> string \<Rightarrow> (string \<times> string) list \<Rightarrow> (string \<times> string) list" where
  "set_header k v [] = [(k, v)]"
| "set_header k v ((k', v') # r) = (if k = k' then (k, v) # r else (k', v') # set_header k v r)"

fun spread :: "(string \<times> string) list \<Rightarrow> (string \<times> string) list \<Rightarrow> (string \<times> string) list" where
  "spread base [] = base"
| "spread base ((k, v) # r) = spread (set_header k v base) r"

definition effective_timeout :: "X402ClientConfig \<Rightarrow> RequestOptions \<Rightarrow> nat" where
  "effective_timeout config options =
     (case opt_timeout options of
        Some t \<Rightarrow> t
      | None \<Rightarrow>
          (case defaultTimeout config of
             None \<Rightarrow> 30000
           | Some d \<Rightarrow> if d = 0 then 30000 else d))"

definition requestConfig ::
    "X402ClientConfig \<Rightarrow> string \<Rightarrow> RequestOptions \<Rightarrow> (string \<times> string) list \<Rightarrow> http_request" where
  "requestConfig config url options fixed_headers =
     \<lparr>req_method = (case opt_method options of None \<Rightarrow> ''GET'' | Some m \<Rightarrow> m),
      req_url = url,
      req_headers = spread fixed_headers (case opt_headers options of None \<Rightarrow> [] | Some h \<Rightarrow> h),
      req_timeout = effective_timeout config options,
      req_data = (if truthy (opt_body options) then opt_body options else None)\<rparr>"

text \<open>
  One call of \<open>axios\<close>: the request is logged; a reply with a status of 500 or more, or
  no reply, rejects with an \<open>AxiosError\<close>.
\<close>

definition axios ::
    "client_runtime \<Rightarrow> http_request \<Rightarrow> client_world
      \<Rightarrow> (thrown + nat \<times> string \<times> json) \<times> client_world" where
  "axios rt c w =
     ((case http rt (http_log w) c of
         NoReply m \<Rightarrow> Inl (AxiosError m None)
       | HttpReply status statusText data \<Rightarrow>
           (if status < 500 then Inr (status, statusText, data)
            else Inl (AxiosError (''Request failed with status code '' @ dec_nat status)
                        (Some (status, statusText, data))))),
      w\<lparr>http_log := http_log w @ [c]\<rparr>)"

subsection \<open>AptosUtils\<close>

definition validatePaymentPayload ::
    "client_runtime \<Rightarrow> jsval \<Rightarrow> client_world \<Rightarrow> bool \<times> client_world" where
  "validatePaymentPayload rt payload w =
     (case get_prop payload ''amount'' of
        Inl e \<Rightarrow> (False, w)
      | Inr a \<Rightarrow>
          (if \<not> truthy a \<or> \<not> truthy (prop_or_undefined payload ''token'')
              \<or> \<not> truthy (prop_or_undefined payload ''recipient'')
              \<or> \<not> truthy (prop_or_undefined payload ''deadline'')
           then (False, w)
           else
             (case BigInt rt a of
                None \<Rightarrow> (False, w)
              | Some n \<Rightarrow>
                  (if n \<le> 0 then (False, w)
                   else (let (now, w1) = Date_now w
                         in (\<not> less_eq_number rt (prop_or_undefined payload ''deadline'') now, w1))))))"

definition checkBalance ::
    "client_runtime \<Rightarrow> string \<Rightarrow> jsval \<Rightarrow> jsval \<Rightarrow> client_world \<Rightarrow> bool" where
  "checkBalance rt addr tok requiredAmount w =
     (case getAccountCoinAmount rt (http_log w) addr tok of
        Inl e \<Rightarrow> False
      | Inr balance \<Rightarrow>
          (case BigInt rt requiredAmount of
             None \<Rightarrow> False
           | Some n \<Rightarrow> balance \<ge> n))"

record SignedTransaction =
  rawTransaction :: string
  signed_signature :: string
  signed_publicKey :: string
  signed_address :: string

definition createPaymentTransaction ::
    "client_runtime \<Rightarrow> AptosAccount \<Rightarrow> jsval \<Rightarrow> client_world
      \<Rightarrow> (js_error + SignedTransaction) \<times> client_world" where
  "createPaymentTransaction rt account paymentPayload w =
     (case publicKey_of rt (account_privateKey account) of
        Inl e \<Rightarrow> (Inl e, w)
      | Inr pk \<Rightarrow>
          (case build_simple rt (http_log w) (account_address account)
                  (prop_or_undefined paymentPayload ''token'')
                  (prop_or_undefined paymentPayload ''recipient'')
                  (prop_or_undefined paymentPayload ''amount'') of
             Inl e \<Rightarrow> (Inl e, w)
           | Inr transaction \<Rightarrow>
               (let (now, w1) = Date_now w
                in (case stringify_transaction rt transaction of
                      Inl e \<Rightarrow> (Inl e, w1)
                    | Inr tx \<Rightarrow>
                        (Inr \<lparr>rawTransaction = tx,
                              signed_signature
                                = ''0x'' @ Buffer_hex (account_address account @ dec_int now),
                              signed_publicKey = pk,
                              signed_address = account_address account\<rparr>, w1)))))"

subsection \<open>X402Client\<close>

definition fixed_headers :: "(string \<times> string) list" where
  "fixed_headers =
     [(''Content-Type'', ''application/json''), (''User-Agent'', ''x402-aptos-client/1.0.0'')]"

text \<open>
  \<open>retryWithPayment\<close>: the proof, the configuration of the second request with the proof
  in its \<open>X-Payment\<close> header, and the request.
\<close>

definition paymentProof :: "SignedTransaction \<Rightarrow> int \<Rightarrow> json" where
  "paymentProof signedTransaction now =
     JObj [(''transaction'', JStr (rawTransaction signedTransaction)),
           (''signature'', JStr (signed_signature signedTransaction)),
           (''publicKey'', JStr (signed_publicKey signedTransaction)),
           (''address'', JStr (signed_address signedTransaction)),
           (''timestamp'', JNum (dec_int now))]"

definition retry_config ::
    "client_runtime \<Rightarrow> X402ClientConfig \<Rightarrow> string \<Rightarrow> RequestOptions \<Rightarrow> SignedTransaction \<Rightarrow> int
      \<Rightarrow> http_request" where
  "retry_config rt config url originalOptions signedTransaction now =
     requestConfig config url originalOptions
       (fixed_headers
         @ [(''X-Payment'', client_JSON_stringify rt (paymentProof signedTransaction now))])"

definition retryWithPayment ::
    "client_runtime \<Rightarrow> X402ClientConfig \<Rightarrow> string \<Rightarrow> RequestOptions \<Rightarrow> SignedTransaction
      \<Rightarrow> client_world \<Rightarrow> (thrown + json) \<times> client_world" where
  "retryWithPayment rt config url originalOptions signedTransaction w =
     (let (now, w1) = Date_now w
      in (case axios rt (retry_config rt config url originalOptions signedTransaction now) w1 of
            (Inl (AxiosError m r), w2) \<Rightarrow>
              (Inl (Thrown (new_Error (''Payment retry failed: '' @ m))), w2)
          | (Inl (Thrown e), w2) \<Rightarrow> (Inl (Thrown e), w2)
          | (Inr (status, statusText, data), w2) \<Rightarrow>
              (if status = 402 then
                 (Inl (Thrown (new_Error
                    ''Payment verification failed - server still requires payment'')), w2)
               else if status \<ge> 400 then
                 (Inl (Thrown (new_Error
                    (''Request failed with status '' @ dec_nat status @ '': '' @ statusText))), w2)
               else (Inr data, w2))))"

text \<open>
  \<open>handlePaymentRequired\<close>, in two steps: everything before the retry (the checks of
  the challenge, the balance, the signed transaction), then the retry.
\<close>

definition prepare_payment ::
    "client_runtime \<Rightarrow> AptosAccount \<Rightarrow> json \<Rightarrow> client_world
      \<Rightarrow> (thrown + SignedTransaction) \<times> client_world" where
  "prepare_payment rt account data w =
     (case get_prop (Some data) ''payment'' of
        Inl e \<Rightarrow> (Inl (Thrown e), w)
      | Inr payment \<Rightarrow>
          (case validatePaymentPayload rt payment w of
             (False, w1) \<Rightarrow>
               (Inl (Thrown (new_Error ''Invalid payment payload received from server'')), w1)
           | (True, w1) \<Rightarrow>
               (let (now, w2) = Date_now w1 in
                if less_eq_number rt (prop_or_undefined payment ''deadline'') now then
                  (Inl (Thrown (new_Error ''Payment deadline has passed'')), w2)
                else if \<not> checkBalance rt (account_address account)
                            (prop_or_undefined payment ''token'')
                            (prop_or_undefined payment ''amount'') w2 then
                  (Inl (Thrown (new_Error ''Insufficient balance for payment'')), w2)
                else
                  (case createPaymentTransaction rt account payment w2 of
                     (Inl e, w3) \<Rightarrow> (Inl (Thrown e), w3)
                   | (Inr signedTransaction, w3) \<Rightarrow> (Inr signedTransaction, w3)))))"

definition handlePaymentRequired ::
    "client_runtime \<Rightarrow> X402ClientConfig \<Rightarrow> AptosAccount \<Rightarrow> json \<Rightarrow> string \<Rightarrow> RequestOptions
      \<Rightarrow> client_world \<Rightarrow> (thrown + json) \<times> client_world" where
  "handlePaymentRequired rt config account data url originalOptions w =
     (case prepare_payment rt account data w of
        (Inl e, w1) \<Rightarrow> (Inl e, w1)
      | (Inr signedTransaction, w1) \<Rightarrow>
          retryWithPayment rt config url originalOptions signedTransaction w1)"

text \<open>
  \<open>request\<close>: the \<open>catch\<close> block sees what \<open>axios\<close> rejected with and also what
  \<open>handlePaymentRequired\<close> threw inside the \<open>try\<close> block.
\<close>

definition request_catch ::
    "client_runtime \<Rightarrow> X402ClientConfig \<Rightarrow> AptosAccount \<Rightarrow> string \<Rightarrow> RequestOptions \<Rightarrow> thrown
      \<Rightarrow> client_world \<Rightarrow> (thrown + json) \<times> client_world" where
  "request_catch rt config account url options e w =
     (case e of
        AxiosError m (Some (status, statusText, data)) \<Rightarrow>
          (if status = 402 then handlePaymentRequired rt config account data url options w
           else (Inl e, w))
      | _ \<Rightarrow> (Inl e, w))"

definition request ::
    "client_runtime \<Rightarrow> X402ClientConfig \<Rightarrow> AptosAccount \<Rightarrow> string \<Rightarrow> RequestOptions
      \<Rightarrow> client_world \<Rightarrow> (thrown + json) \<times> client_world" where
  "request rt config account url options w =
     (case axios rt (requestConfig config url options fixed_headers) w of
        (Inl e, w1) \<Rightarrow> request_catch rt config account url options e w1
      | (Inr (status, statusText, data), w1) \<Rightarrow>
          (if status = 402 then
             (case handlePaymentRequired rt config account data url options w1 of
                (Inl e, w2) \<Rightarrow> request_catch rt config account url options e w2
              | (Inr d, w2) \<Rightarrow> (Inr d, w2))
           else (Inr data, w1)))"

section \<open>Notions used in the statements\<close>

text \<open>A value with the shape of the interface \<open>PaymentRequest\<close> of types.ts.\<close>

fun typeof_number :: "jsval \<Rightarrow> bool" where
  "typeof_number (Some (JNum t)) = True"
| "typeof_number v = False"

fun is_PaymentRequest :: "jsval \<Rightarrow> bool" where
  "is_PaymentRequest (Some (JObj kvs)) =
     (typeof_string (map_of kvs ''transaction'') \<and> typeof_string (map_of kvs ''signature'')
      \<and> typeof_string (map_of kvs ''publicKey'') \<and> typeof_string (map_of kvs ''address'')
      \<and> typeof_number (map_of kvs ''timestamp''))"
| "is_PaymentRequest v = False"

text \<open>
  A proof reaches the ledger, in real mode, when its transaction parses and the steps
  before the submission do not throw.
\<close>

definition submission_planned :: "runtime \<Rightarrow> jsval \<Rightarrow> bool" where
  "submission_planned rt paymentRequest =
     (case get_prop paymentRequest ''address'' of
        Inl e \<Rightarrow> False
      | Inr a \<Rightarrow>
          (case parse_transaction_field rt paymentRequest of
             Inl e \<Rightarrow> False
           | Inr transaction \<Rightarrow>
               (case plan_submission rt transaction (prop_or_undefined paymentRequest ''signature'') of
                  Inl e \<Rightarrow> False
                | Inr plan \<Rightarrow> True)))"

text \<open>
  The amount and the recipient a wallet-signed transfer carries, where the submission
  code reads them (lines 206 and 252):
  \<open>rawTransaction.payload.entryFunction.args[1].value\<close> and the bytes
  \<open>rawTransaction.payload.entryFunction.args[0].data\<close>.
\<close>

fun element :: "jsval \<Rightarrow> nat \<Rightarrow> jsval" where
  "element (Some (JArr xs)) i = (if i < length xs then Some (xs ! i) else None)"
| "element v i = None"

definition transfer_amount :: "json \<Rightarrow> jsval" where
  "transfer_amount parsedTransaction =
     prop_or_undefined
       (element
          (prop_or_undefined
             (prop_or_undefined
                (prop_or_undefined
                   (prop_or_undefined (Some parsedTransaction) ''rawTransaction'')
                   ''payload'')
                ''entryFunction'')
             ''args'')
          1)
       ''value''"

definition transfer_recipient :: "json \<Rightarrow> jsval" where
  "transfer_recipient parsedTransaction =
     prop_or_undefined
       (element
          (prop_or_undefined
             (prop_or_undefined
                (prop_or_undefined
                   (prop_or_undefined (Some parsedTransaction) ''rawTransaction'')
                   ''payload'')
                ''entryFunction'')
             ''args'')
          0)
       ''data''"

section \<open>Concrete runs\<close>

text \<open>
  A \<open>JSON.parse\<close> that knows the texts of a table and rejects every other text. It stands
  for the runtime in the examples below, which use the texts of the table and texts that
  are not JSON at all.
\<close>

definition table_parse :: "(string \<times> json) list \<Rightarrow> string \<Rightarrow> js_error + json" where
  "table_parse tbl s =
     (case map_of tbl s of
        Some v \<Rightarrow> Inr v
      | None \<Rightarrow> Inl (new_Error ''Unexpected token in JSON''))"

text \<open>
  \<open>JSON.stringify\<close> for values whose strings need no escape beyond quotes and
  backslashes.
\<close>

definition json_quote :: "string \<Rightarrow> string" where
  "json_quote s =
     [CHR 0x22] @ concat (map (\<lambda>c. if c = CHR 0x22 \<or> c = CHR 0x5C then [CHR 0x5C, c] else [c]) s)
       @ [CHR 0x22]"

fun json_text :: "json \<Rightarrow> string" and json_members :: "(string \<times> json) list \<Rightarrow> string"
    and json_items :: "json list \<Rightarrow> string" where
  "json_text JNull = ''null''"
| "json_text (JBool b) = (if b then ''true'' else ''false'')"
| "json_text (JNum t) = t"
| "json_text (JStr s) = json_quote s"
| "json_text (JArr xs) = ''['' @ json_items xs @ '']''"
| "json_text (JObj kvs) = ''{'' @ json_members kvs @ ''}''"
| "json_members [] = []"
| "json_members [(k, v)] = json_quote k @ '':'' @ json_text v"
| "json_members ((k, v) # kv # kvs) = json_quote k @ '':'' @ json_text v @ '','' @ json_members (kv # kvs)"
| "json_items [] = []"
| "json_items [x] = json_text x"
| "json_items (x # y # ys) = json_text x @ '','' @ json_items (y # ys)"

text \<open>
  The sample transaction, in the shape a wallet signs: a transfer of one minor unit from
  the account \<open>0xa11c\<close> to the account \<open>0x0e\<close>, addresses and keys being objects of
  bytes. With it, its signature, and the body that lines 196 to 259 of
  aptos-facilitator.ts build from the two for the REST endpoint.
\<close>

definition sample_transaction_text :: string where
  \<open>sample_transaction_text =
     ''{"rawTransaction":{"sender":{"data":{"0":161,"1":28}},"sequence_number":"7","max_gas_amount":"2000","gas_unit_price":"100","expiration_timestamp_secs":"1700000600","payload":{"entryFunction":{"args":[{"data":{"0":14}},{"value":"1"}]}}}}''\<close>

definition sample_transaction :: json where
  "sample_transaction =
     JObj [(''rawTransaction'',
       JObj [(''sender'', JObj [(''data'', JObj [(''0'', JNum ''161''), (''1'', JNum ''28'')])]),
             (''sequence_number'', JStr ''7''),
             (''max_gas_amount'', JStr ''2000''),
             (''gas_unit_price'', JStr ''100''),
             (''expiration_timestamp_secs'', JStr ''1700000600''),
             (''payload'',
               JObj [(''entryFunction'',
                 JObj [(''args'',
                   JArr [JObj [(''data'', JObj [(''0'', JNum ''14'')])],
                         JObj [(''value'', JStr ''1'')]])])])])]"

definition sample_signature_text :: string where
  \<open>sample_signature_text =
     ''{"public_key":{"key":{"data":{"0":155}}},"signature":{"data":{"data":{"0":81,"1":100}}}}''\<close>

definition sample_signature :: json where
  "sample_signature =
     JObj [(''public_key'', JObj [(''key'', JObj [(''data'', JObj [(''0'', JNum ''155'')])])]),
           (''signature'',
             JObj [(''data'', JObj [(''data'', JObj [(''0'', JNum ''81''), (''1'', JNum ''100'')])])])]"

definition sample_submission :: json where
  "sample_submission =
     JObj [(''sender'', JStr ''0xa11c''),
           (''sequence_number'', JStr ''7''),
           (''max_gas_amount'', JStr ''2000''),
           (''gas_unit_price'', JStr ''100''),
           (''expiration_timestamp_secs'', JStr ''1700000600''),
           (''payload'',
             JObj [(''type'', JStr ''entry_function_payload''),
                   (''function'', JStr ''0x1::coin::transfer''),
                   (''type_arguments'', JArr [JStr ''0x1::aptos_coin::AptosCoin'']),
                   (''arguments'', JArr [JStr ''0x0e'', JStr ''1''])]),
           (''signature'',
             JObj [(''type'', JStr ''ed25519_signature''),
                   (''public_key'', JStr ''0x9b''),
                   (''signature'', JStr ''0x5164'')])]"

text \<open>A proof around a transaction text, and the text of the proof as the header carries it.\<close>

definition proof_of :: "string \<Rightarrow> string \<Rightarrow> json" where
  "proof_of transaction_text addr =
     JObj [(''transaction'', JStr transaction_text), (''signature'', JStr sample_signature_text),
           (''publicKey'', JStr ''0x9b''), (''address'', JStr addr),
           (''timestamp'', JNum ''1700000000000'')]"

definition proof_text :: "string \<Rightarrow> string \<Rightarrow> string" where
  "proof_text transaction_text addr = json_text (proof_of transaction_text addr)"

definition sample_texts :: "(string \<times> json) list" where
  "sample_texts =
     [(sample_transaction_text, sample_transaction),
      (sample_signature_text, sample_signature),
      (proof_text sample_transaction_text ''0xa11c'', proof_of sample_transaction_text ''0xa11c''),
      (''{}'', JObj [])]"

text \<open>
  A fullnode that accepts a transaction the first time it is submitted and refuses it the
  second time, as a chain does with a sequence number already used.
\<close>

definition once_only_node :: "net_call list \<Rightarrow> json \<Rightarrow> rest_reply" where
  "once_only_node log body =
     (if RestPost body \<in> set log
      then Reply False ''Bad Request''
             (JObj [(''message'',
                     JStr ''Invalid transaction: Type: Validation Code: SEQUENCE_NUMBER_TOO_OLD''),
                    (''error_code'', JStr ''vm_error'')])
      else Reply True ''Accepted'' (JObj [(''hash'', JStr ''0xfeed'')]))"

definition sample_rest_payload :: "json \<Rightarrow> jsval \<Rightarrow> signature_value \<Rightarrow> js_error + json" where
  "sample_rest_payload parsedTransaction transactionToSubmit signatureToSubmit =
     (if parsedTransaction = sample_transaction
         \<and> signatureToSubmit = Given (Some sample_signature)
      then Inr sample_submission
      else Inl (new_Error ''Cannot read properties of undefined (reading data)''))"

definition sample_runtime :: runtime where
  "sample_runtime =
     \<lparr>JSON_parse = table_parse sample_texts,
      JSON_stringify = json_text,
      rest_payload = sample_rest_payload,
      fetch_post = once_only_node,
      sdk_submit = (\<lambda>log tx sig. Inl (new_Error ''Invalid transaction'')),
      waitForTransaction = (\<lambda>log h. None)\<rparr>"

text \<open>The same, with a confirmation that does not arrive in time.\<close>

definition slow_runtime :: runtime where
  "slow_runtime =
     sample_runtime\<lparr>waitForTransaction :=
       (\<lambda>log h. Some (new_Error ''timeout of 30000ms exceeded''))\<rparr>"

definition mock_config :: FacilitatorConfig where
  "mock_config = \<lparr>aptosNetwork = Testnet, port = 3000, mockMode = Some True\<rparr>"

definition real_config :: FacilitatorConfig where
  "real_config = \<lparr>aptosNetwork = Testnet, port = 3001, mockMode = Some False\<rparr>"

definition ticking :: "nat \<Rightarrow> int" where
  "ticking k = 1700000000000 + int k"

definition world0 :: world where
  "world0 = \<lparr>clock = ticking, reads = 0, net_log = []\<rparr>"

definition route_of :: "string \<Rightarrow> PaymentRoute" where
  "route_of p = \<lparr>price = Price p, network = Some ''aptos-testnet'', description = None\<rparr>"

definition sample_routes :: "(string \<times> PaymentRoute) list" where
  "sample_routes =
     [(''/weather'', route_of ''1000000''), (''/premium/*'', route_of ''10000000'')]"

definition server_routes :: "(string \<times> PaymentRoute) list" where
  "server_routes =
     [(''GET /weather'', route_of ''1000000''), (''GET /premium/*'', route_of ''10000000'')]"

text \<open>
  The table of the example server of the facilitator package, which its README repeats:
  the weather route and the processing route are keyed by method and path.
\<close>

definition example_routes :: "(string \<times> PaymentRoute) list" where
  "example_routes =
     [(''GET /weather'',
       \<lparr>price = Price ''1000000'', network = Some ''aptos-testnet'', description = None\<rparr>),
      (''/premium/*'',
       \<lparr>price = PriceOf ''10000000'' (Some \<lparr>asset_address = AptosCoin, asset_decimals = 8\<rparr>),
        network = Some ''aptos-testnet'', description = None\<rparr>),
      (''POST /api/process'',
       \<lparr>price = Price ''5000000'', network = Some ''aptos-testnet'', description = None\<rparr>)]"

text \<open>A table whose weather route costs what the sample transaction transfers.\<close>

definition exact_routes :: "(string \<times> PaymentRoute) list" where
  "exact_routes = [(''/weather'', route_of ''1'')]"

definition sample_server_config :: ServerConfig where
  "sample_server_config =
     \<lparr>server_port = 4021, facilitatorUrl = ''http://localhost:3001'',
      paymentAddress = ''0xbcfb4a60c030cb5dcab8adc7d723fcc6f2bbfa432f595ae8eb1bdc436b928cbd'',
      server_mockMode = Some False\<rparr>"

definition sample_server_runtime :: server_runtime where
  "sample_server_runtime =
     \<lparr>server_JSON_parse = table_parse sample_texts,
      random36 = (\<lambda>k. ''k3j9x2m1q0z''),
      axios_post = (\<lambda>log url body. Inl (new_Error ''connect ECONNREFUSED 127.0.0.1:3001''))\<rparr>"

definition server_world0 :: server_world where
  "server_world0 = \<lparr>clock = ticking, reads = 0, draws = 0, verify_log = []\<rparr>"

text \<open>The text \<open>processPayment\<close> hands to \<open>JSON.parse\<close>.\<close>

definition transaction_text :: "jsval \<Rightarrow> string" where
  "transaction_text paymentRequest = String_of (prop_or_undefined paymentRequest ''transaction'')"

text \<open>One proof, verified twice in real mode.\<close>

definition sample_proof :: jsval where
  "sample_proof = Some (proof_of sample_transaction_text ''0xa11c'')"

definition first_call :: "PaymentVerification \<times> world" where
  "first_call = processPayment real_config sample_runtime sample_proof world0"

definition second_call :: "PaymentVerification \<times> world" where
  "second_call = processPayment real_config sample_runtime sample_proof (snd first_call)"

text \<open>A proof with a three-character address, verified twice in mock mode.\<close>

definition short_proof :: jsval where
  "short_proof = Some (proof_of sample_transaction_text ''0x1'')"

definition short_first :: "PaymentVerification \<times> world" where
  "short_first = processPayment mock_config sample_runtime short_proof world0"

definition short_second :: "PaymentVerification \<times> world" where
  "short_second = processPayment mock_config sample_runtime short_proof (snd short_first)"

text \<open>A proof with an address of full length.\<close>

definition payer_address :: string where
  "payer_address = ''0xbcfb4a60c030cb5dcab8adc7d723fcc6f2bbfa432f595ae8eb1bdc436b928cbd''"

definition long_proof :: jsval where
  "long_proof = Some (proof_of sample_transaction_text payer_address)"

text \<open>A proof whose transaction is not JSON.\<close>

definition garbled_proof :: jsval where
  "garbled_proof = Some (proof_of ''not json'' ''0xa11c'')"

text \<open>The sample proof, verified in real mode while the confirmation times out.\<close>

definition slow_call :: "PaymentVerification \<times> world" where
  "slow_call = processPayment real_config slow_runtime sample_proof world0"

text \<open>Requests to the weather route of the sample tables.\<close>

definition payee :: string where
  "payee = ''0x1234567890abcdef1234567890abcdef12345678''"

definition weather_request :: "string option \<Rightarrow> Request" where
  "weather_request h = \<lparr>request_method = ''GET'', path = ''/weather'', x_payment = h\<rparr>"

definition underpaid_outcome :: "PaymentVerification outcome \<times> world" where
  "underpaid_outcome =
     createPaymentMiddleware payee sample_routes ''http://localhost:3001'' sample_runtime
       (weather_request (Some (proof_text sample_transaction_text ''0xa11c''))) world0"

definition real_outcome :: "PaymentVerification outcome \<times> world" where
  "real_outcome =
     customPaymentMiddleware payee sample_routes ''http://localhost:4021'' sample_runtime
       (weather_request (Some (proof_text sample_transaction_text ''0xa11c''))) world0"

definition garbled_outcome :: "PaymentVerification outcome \<times> world" where
  "garbled_outcome =
     createPaymentMiddleware payee sample_routes ''http://localhost:3001'' sample_runtime
       (weather_request (Some ''not json'')) world0"

text \<open>
  A client runtime for the examples: \<open>BigInt\<close> and \<open>v <= n\<close> on values that are decimal
  texts; an account with 5 APT; a node that builds the transfer of the sample account.
\<close>

fun decimal_value :: "string \<Rightarrow> nat \<Rightarrow> nat option" where
  "decimal_value [] acc = Some acc"
| "decimal_value (c # cs) acc =
     (if c \<in> set ''0123456789'' then decimal_value cs (10 * acc + (of_char c - 48)) else None)"

definition decimal_BigInt :: "jsval \<Rightarrow> int option" where
  "decimal_BigInt v =
     (case v of
        Some (JStr (c # cs)) \<Rightarrow> map_option int (decimal_value (c # cs) 0)
      | Some (JNum (c # cs)) \<Rightarrow> map_option int (decimal_value (c # cs) 0)
      | _ \<Rightarrow> None)"

definition decimal_less_eq :: "jsval \<Rightarrow> int \<Rightarrow> bool" where
  "decimal_less_eq v n =
     (case v of
        Some (JNum (c # cs)) \<Rightarrow>
          (case decimal_value (c # cs) 0 of None \<Rightarrow> False | Some d \<Rightarrow> int d \<le> n)
      | _ \<Rightarrow> False)"

text \<open>
  The account of the examples: the key pair of the first test vector of RFC 8032, with
  the address the ledger derives from the public key. The node builds for it a transfer
  of 1000000 minor units to the payment address of the sample server; of its fields, the
  value below holds those the facilitator reads. In a runtime where big integers print as
  decimal strings (one whose \<open>BigInt\<close> has a \<open>toJSON\<close>), \<open>JSON.stringify\<close> prints the
  transfer; in a runtime where they do not print, it throws a \<open>TypeError\<close>. The sample
  runtime takes the server and this \<open>JSON.stringify\<close>.
\<close>

definition sample_account :: AptosAccount where
  "sample_account =
     \<lparr>account_address = ''0x63c5215e87770d17b9f4cd47c777e322f4eb152cfd2054c1080fd9d57c48913b'',
      account_publicKey = ''0xd75a980182b10ab7d54bfed3c964073a0ee172f3daa62325af021a68f707511a'',
      account_privateKey = ''0x9d61b19deffd5a60ba844af492ec2cc44449c5697b326919703bac031cae7f60''\<rparr>"

definition bytes_object :: "nat list \<Rightarrow> json" where
  "bytes_object bs =
     JObj (map (\<lambda>(i, b). (dec_nat i, JNum (dec_nat b))) (zip [0..<length bs] bs))"

definition client_transaction :: json where
  "client_transaction =
     JObj [(''rawTransaction'',
       JObj [(''sender'',
               JObj [(''data'',
                 bytes_object [99, 197, 33, 94, 135, 119, 13, 23, 185, 244, 205, 71, 199, 119, 227,
                   34, 244, 235, 21, 44, 253, 32, 84, 193, 8, 15, 217, 213, 124, 72, 145, 59])]),
             (''sequence_number'', JStr ''7''),
             (''max_gas_amount'', JStr ''200000''),
             (''gas_unit_price'', JStr ''100''),
             (''expiration_timestamp_secs'', JStr ''1700000020''),
             (''payload'',
               JObj [(''entryFunction'',
                 JObj [(''args'',
                   JArr [JObj [(''data'',
                           bytes_object [188, 251, 74, 96, 192, 48, 203, 93, 202, 184, 173, 199,
                             215, 35, 252, 198, 242, 187, 250, 67, 47, 89, 90, 232, 235, 27, 220,
                             67, 107, 146, 140, 189])],
                         JObj [(''value'', JStr ''1000000'')]])])])])]"

definition printing :: "json \<Rightarrow> js_error + string" where
  "printing transaction = Inr (json_text transaction)"

definition not_printing :: "json \<Rightarrow> js_error + string" where
  "not_printing transaction = Inl (new_Error ''Do not know how to serialize a BigInt'')"

definition sample_client_runtime ::
    "(http_request list \<Rightarrow> http_request \<Rightarrow> http_reply) \<Rightarrow> (json \<Rightarrow> js_error + string)
      \<Rightarrow> client_runtime" where
  "sample_client_runtime server stringify =
     \<lparr>http = server,
      BigInt = decimal_BigInt,
      less_eq_number = decimal_less_eq,
      getAccountCoinAmount = (\<lambda>log addr tok. Inr 500000000),
      publicKey_of =
        (\<lambda>k. if k = account_privateKey sample_account then Inr (account_publicKey sample_account)
             else Inl (new_Error ''Invalid private key'')),
      build_simple = (\<lambda>log sender tok rcpt amt. Inr client_transaction),
      stringify_transaction = stringify,
      client_JSON_stringify = json_text\<rparr>"

text \<open>A server that answers every request with 402 and a challenge with the given deadline.\<close>

definition challenge_body :: "string \<Rightarrow> json" where
  "challenge_body deadline_text =
     JObj [(''payment'',
            JObj [(''amount'', JStr ''1000000''), (''token'', JStr AptosCoin),
                  (''recipient'', JStr (paymentAddress sample_server_config)),
                  (''deadline'', JNum deadline_text),
                  (''nonce'', JStr ''k3j9x2m1q0zk3j9x2m1q0z'')]),
           (''message'', JStr ''Payment required to access GET /weather''),
           (''retryAfter'', JNum ''5'')]"

definition demanding_server :: "string \<Rightarrow> client_runtime" where
  "demanding_server deadline_text =
     sample_client_runtime
       (\<lambda>log c. HttpReply 402 ''Payment Required'' (challenge_body deadline_text))
       printing"

text \<open>The same server, met by a client in whose runtime the transfer does not print.\<close>

definition demanding_server_unprinted :: "string \<Rightarrow> client_runtime" where
  "demanding_server_unprinted deadline_text =
     sample_client_runtime
       (\<lambda>log c. HttpReply 402 ''Payment Required'' (challenge_body deadline_text))
       not_printing"

text \<open>A server that is out of service and answers every request with 503.\<close>

definition unavailable_body :: json where
  "unavailable_body = JObj [(''error'', JStr ''Service Unavailable'')]"

definition unavailable_server :: client_runtime where
  "unavailable_server =
     sample_client_runtime (\<lambda>log c. HttpReply 503 ''Service Unavailable'' unavailable_body)
       printing"

definition sample_client_config :: X402ClientConfig where
  "sample_client_config = \<lparr>client_network = Testnet, defaultTimeout = None, maxRetries = None\<rparr>"

definition no_options :: RequestOptions where
  "no_options = \<lparr>opt_method = None, opt_headers = None, opt_body = None, opt_timeout = None\<rparr>"

definition weather_url :: string where
  "weather_url = ''http://localhost:4021/weather''"

definition client_world0 :: client_world where
  "client_world0 = \<lparr>clock = ticking, reads = 0, http_log = []\<rparr>"

definition first_request :: http_request where
  "first_request = requestConfig sample_client_config weather_url no_options fixed_headers"

text \<open>
  The sample request: to the server that keeps demanding payment, in either runtime, and
  to the server out of service.
\<close>

definition refused_run :: "(thrown + json) \<times> client_world" where
  "refused_run =
     request (demanding_server ''1700000300000'') sample_client_config sample_account
       weather_url no_options client_world0"

definition unprinted_run :: "(thrown + json) \<times> client_world" where
  "unprinted_run =
     request (demanding_server_unprinted ''1700000300000'') sample_client_config sample_account
       weather_url no_options client_world0"

definition unavailable_run :: "(thrown + json) \<times> client_world" where
  "unavailable_run =
     request unavailable_server sample_client_config sample_account
       weather_url no_options client_world0"

section \<open>Properties of the facilitator\<close>

subsection \<open>Results and the log\<close>

lemma invalid_result_fields:
  "isValid (fst (invalid_result m w)) = False"
  "error (fst (invalid_result m w)) = Some m"
  "transactionHash (fst (invalid_result m w)) = None"
  by (simp_all add: invalid_result_def Date_now_def)

lemma valid_result_fields:
  "isValid (fst (valid_result h w)) = True"
  "error (fst (valid_result h w)) = None"
  "transactionHash (fst (valid_result h w)) = h"
  by (simp_all add: valid_result_def Date_now_def)

lemma result_net_log:
  "net_log (snd (invalid_result m w)) = net_log w"
  "net_log (snd (valid_result h w)) = net_log w"
  by (simp_all add: invalid_result_def valid_result_def Date_now_def)

lemma submissions_cong: "net_log w' = net_log w \<Longrightarrow> submissions w' = submissions w"
  by (simp add: submissions_def)

lemma submit_plan_submissions:
  "submissions (snd (submit_plan rt plan w)) = Suc (submissions w)"
  by (cases plan) (simp_all add: submit_plan_def net_send_def submissions_def)

lemma wait_submissions: "submissions (net_send (WaitFor h) w) = submissions w"
  by (simp add: net_send_def submissions_def)

lemma submitTransaction_try_submissions:
  "plan_submission rt tx sig = Inr plan \<Longrightarrow>
     submissions (snd (submitTransaction_try rt tx sig w)) = Suc (submissions w)"
  using submit_plan_submissions [of rt plan w]
  by (auto simp add: submitTransaction_try_def wait_submissions
      split: prod.splits sum.splits option.splits)

lemma submitTransaction_catch_submissions:
  "submissions (snd (submitTransaction_catch rt tx e w)) = submissions w"
  by (simp add: submitTransaction_catch_def Date_now_def submissions_def split: prod.splits)

lemma submitTransaction_submissions:
  assumes "plan_submission rt tx sig = Inr plan"
  shows "submissions (snd (submitTransaction rt tx sig w)) = Suc (submissions w)"
proof (cases "submitTransaction_try rt tx sig w")
  case (Pair r w1)
  with submitTransaction_try_submissions [OF assms, of w]
  have w1: "submissions w1 = Suc (submissions w)" by simp
  show ?thesis
  proof (cases r)
    case (Inl e)
    with Pair w1 show ?thesis
      by (simp add: submitTransaction_def submitTransaction_catch_submissions)
  next
    case (Inr h)
    with Pair w1 show ?thesis by (simp add: submitTransaction_def)
  qed
qed

lemma processPayment_submits_once:
  assumes real: "mockMode config \<noteq> Some True" and planned: "submission_planned rt pr"
  shows "submissions (snd (processPayment config rt pr w)) = Suc (submissions w)"
proof -
  from planned obtain a tx plan where a: "get_prop pr ''address'' = Inr a"
    and tx: "parse_transaction_field rt pr = Inr tx"
    and plan: "plan_submission rt tx (prop_or_undefined pr ''signature'') = Inr plan"
    by (auto simp add: submission_planned_def split: sum.splits)
  obtain r w1 where sub: "submitTransaction rt tx (prop_or_undefined pr ''signature'') w = (r, w1)"
    by (cases "submitTransaction rt tx (prop_or_undefined pr ''signature'') w")
  with submitTransaction_submissions [OF plan, of w]
  have w1: "submissions w1 = Suc (submissions w)" by simp
  have "submissions (snd (createRealVerification rt pr w)) = Suc (submissions w)"
    using a tx sub w1
    by (cases r)
       (simp_all add: createRealVerification_def verifySignature_def
          submissions_cong [OF result_net_log(1)] submissions_cong [OF result_net_log(2)])
  with real a show ?thesis by (simp add: processPayment_def)
qed

subsection \<open>The sample run\<close>

lemma sample_runtime_sel:
  "JSON_parse sample_runtime = table_parse sample_texts"
  "JSON_stringify sample_runtime = json_text"
  "rest_payload sample_runtime = sample_rest_payload"
  "fetch_post sample_runtime = once_only_node"
  "waitForTransaction sample_runtime = (\<lambda>log h. None)"
  by (simp_all add: sample_runtime_def)

text \<open>The texts of the table are the JSON texts of their values.\<close>

lemma sample_texts_agree:
  "json_text sample_transaction = sample_transaction_text"
  "json_text sample_signature = sample_signature_text"
  by (simp_all add: sample_transaction_def sample_transaction_text_def sample_signature_def
      sample_signature_text_def json_quote_def)

lemma sample_parse: "table_parse sample_texts sample_transaction_text = Inr sample_transaction"
  by (simp add: table_parse_def sample_texts_def)

lemma sample_signature_parse:
  "table_parse sample_texts sample_signature_text = Inr sample_signature"
  by (simp add: table_parse_def sample_texts_def sample_transaction_text_def
      sample_signature_text_def)

lemma sample_signature_not_hex: "\<not> startsWith sample_signature_text ''0x''"
  by (simp add: startsWith_def sample_signature_text_def)

lemma sample_transaction_props:
  "get_prop (Some sample_transaction) ''prefix'' = Inr None"
  "get_prop (Some sample_transaction) ''rawTransaction''
     = Inr (prop_or_undefined (Some sample_transaction) ''rawTransaction'')"
  "truthy (prop_or_undefined (Some sample_transaction) ''rawTransaction'')"
  "typeof_object (prop_or_undefined (Some sample_transaction) ''rawTransaction'')"
  "truthy (payload_entryFunction (prop_or_undefined (Some sample_transaction) ''rawTransaction''))"
  by (simp_all add: sample_transaction_def prop_or_undefined_def payload_entryFunction_def)

lemma sample_signature_authenticator:
  "get_prop (Some sample_signature) ''authenticator'' = Inr None"
  by (simp add: sample_signature_def)

lemma sample_plan:
  "plan_submission sample_runtime sample_transaction (Some (JStr sample_signature_text))
     = Inr (ByRest sample_submission)"
proof -
  have "parse_transaction sample_runtime sample_transaction = Inr sample_transaction"
    by (simp add: parse_transaction_def sample_transaction_def)
  moreover have "parse_signature sample_runtime sample_transaction (Some (JStr sample_signature_text))
      = Inr (Given (Some sample_signature))"
    by (simp add: parse_signature_def sample_signature_not_hex sample_runtime_sel
        sample_signature_parse)
  moreover have "check_not_wallet_message sample_transaction = Inr ()"
    by (simp add: check_not_wallet_message_def sample_transaction_props)
  ultimately show ?thesis
    by (simp add: plan_submission_def sample_transaction_props sample_signature_authenticator
        sample_runtime_sel sample_rest_payload_def)
qed

lemma sample_proof_props:
  "get_prop sample_proof ''address'' = Inr (Some (JStr ''0xa11c''))"
  "prop_or_undefined sample_proof ''transaction'' = Some (JStr sample_transaction_text)"
  "prop_or_undefined sample_proof ''signature'' = Some (JStr sample_signature_text)"
  by (simp_all add: sample_proof_def proof_of_def prop_or_undefined_def)

lemma sample_proof_parse:
  "parse_transaction_field sample_runtime sample_proof = Inr sample_transaction"
  by (simp add: parse_transaction_field_def sample_proof_def proof_of_def String_of_def
      sample_runtime_sel sample_parse)

lemma sample_planned: "submission_planned sample_runtime sample_proof"
  by (simp add: submission_planned_def sample_proof_props sample_proof_parse sample_plan)

lemma first_call_value:
  "first_call = (\<lparr>isValid = True, transactionHash = Some (JStr ''0xfeed''), error = None,
                   verifiedAt = 1700000000000\<rparr>,
                 \<lparr>clock = ticking, reads = 1,
                   net_log = [RestPost sample_submission, WaitFor (Some (JStr ''0xfeed''))]\<rparr>)"
  by (simp add: first_call_def processPayment_def real_config_def sample_proof_props
      createRealVerification_def sample_proof_parse verifySignature_def sample_runtime_sel
      sample_plan submitTransaction_def submitTransaction_try_def submit_plan_def
      once_only_node_def rest_result_def world0_def net_send_def valid_result_def Date_now_def
      ticking_def)

lemma second_call_value:
  "second_call = (\<lparr>isValid = False, transactionHash = None,
       error = Some ''Failed to submit transaction: Transaction submission failed: Invalid transaction: Type: Validation Code: SEQUENCE_NUMBER_TOO_OLD'',
       verifiedAt = 1700000000001\<rparr>,
     \<lparr>clock = ticking, reads = 2,
       net_log = [RestPost sample_submission, WaitFor (Some (JStr ''0xfeed'')),
                  RestPost sample_submission]\<rparr>)"
  by (simp add: second_call_def first_call_value processPayment_def real_config_def
      sample_proof_props createRealVerification_def sample_proof_parse verifySignature_def
      sample_runtime_sel sample_plan submitTransaction_def submitTransaction_try_def
      submit_plan_def once_only_node_def rest_result_def String_of_def
      submitTransaction_catch_def new_Error_def startsWith_def net_send_def invalid_result_def
      Date_now_def ticking_def)

subsection \<open>Verifying the same proof twice\<close>

text \<open>
  Claim C1 asks that verifying the same proof twice gives the same result both times and
  submits to the ledger at most once, the second call answering from a cache. The
  facilitator keeps no cache. In the sample run the proof is verified twice in real mode
  against a fullnode that refuses a transaction it has already seen: the first call is
  valid, the second is not, and the fullnode has been sent the transaction twice.
\<close>

theorem resubmission_counterexample:
  "isValid (fst first_call) \<and> \<not> isValid (fst second_call) \<and> submissions (snd second_call) = 2"
  by (simp add: first_call_value second_call_value submissions_def)

text \<open>
  Claim C1, as amended: \<open>processPayment\<close> remembers nothing of earlier calls. In real
  mode, every call with a proof that gets as far as the submission submits to the ledger
  anew, so verifying the same such proof twice causes two submissions.
\<close>

theorem no_cache_resubmits:
  assumes "mockMode config \<noteq> Some True" and "submission_planned rt pr"
  shows "submissions (snd (processPayment config rt pr (snd (processPayment config rt pr w))))
           = submissions w + 2"
  using assms by (simp add: processPayment_submits_once)

theorem no_cache_resubmits_witness:
  "mockMode real_config \<noteq> Some True \<and> submission_planned sample_runtime sample_proof
   \<and> submissions (snd second_call) = submissions world0 + 2"
  using no_cache_resubmits [of real_config sample_runtime sample_proof world0]
  by (simp add: sample_planned real_config_def second_call_def first_call_def)

subsection \<open>Mock mode\<close>

lemma is_PaymentRequest_props:
  assumes "is_PaymentRequest pr"
  obtains kvs t a where "pr = Some (JObj kvs)" "map_of kvs ''transaction'' = Some (JStr t)"
    "map_of kvs ''address'' = Some (JStr a)"
proof -
  from assms obtain kvs where pr: "pr = Some (JObj kvs)"
    by (cases pr rule: is_PaymentRequest.cases) auto
  with assms have "typeof_string (map_of kvs ''transaction'')"
    and "typeof_string (map_of kvs ''address'')"
    by simp_all
  then obtain t a where "map_of kvs ''transaction'' = Some (JStr t)"
    and "map_of kvs ''address'' = Some (JStr a)"
    by (metis typeof_string.elims(2))
  with pr that show thesis by blast
qed

text \<open>
  Claim C10: in mock mode \<open>processPayment\<close> answers \<open>isValid = true\<close> for every
  \<open>PaymentRequest\<close> whose transaction is parseable JSON, whatever its signature, public
  key, address, amount, recipient or time; a mock verification fails only when the
  transaction does not parse.
\<close>

theorem mock_valid_iff_parseable:
  assumes "mockMode config = Some True" and "is_PaymentRequest pr"
  shows "isValid (fst (processPayment config rt pr w))
           = (\<exists>tx. JSON_parse rt (transaction_text pr) = Inr tx)"
proof -
  from assms(2) obtain kvs t a where pr: "pr = Some (JObj kvs)"
    and t: "map_of kvs ''transaction'' = Some (JStr t)"
    and a: "map_of kvs ''address'' = Some (JStr a)"
    by (rule is_PaymentRequest_props)
  show ?thesis
  proof (cases "JSON_parse rt t")
    case (Inl e)
    then show ?thesis
      using assms(1) pr t a
      by (simp add: processPayment_def parse_transaction_field_def transaction_text_def
          prop_or_undefined_def String_of_def invalid_result_fields)
  next
    case (Inr tx)
    then show ?thesis
      using assms(1) pr t a
      by (simp add: processPayment_def parse_transaction_field_def transaction_text_def
          prop_or_undefined_def String_of_def verifySignature_def Date_now_def
          valid_result_fields split: prod.splits)
  qed
qed

theorem mock_valid_iff_parseable_witness:
  "mockMode mock_config = Some True \<and> is_PaymentRequest sample_proof
   \<and> isValid (fst (processPayment mock_config sample_runtime sample_proof world0))"
  using mock_valid_iff_parseable [of mock_config sample_proof sample_runtime world0]
  by (simp add: mock_config_def sample_proof_def proof_of_def transaction_text_def
      prop_or_undefined_def String_of_def sample_runtime_sel sample_parse)

subsection \<open>The synthetic hash of mock mode\<close>

lemma length_hex_bytes: "length (concat (map hex_byte bs)) = 2 * length bs"
  by (induction bs) (simp_all add: hex_byte_def)

lemma length_utf8_bytes: "length s \<le> length (concat (map utf8 s))"
  by (induction s) (auto simp add: utf8_def Let_def)

lemma Buffer_hex_append: "Buffer_hex (a @ t) = Buffer_hex a @ Buffer_hex t"
  by (simp add: Buffer_hex_def)

lemma mock_hash_formula:
  assumes "mockMode config = Some True" and "get_prop pr ''address'' = Inr (Some (JStr a))"
  shows "transactionHash (fst (processPayment config rt pr w))
           = (case parse_transaction_field rt pr of
                Inl e \<Rightarrow> None
              | Inr tx \<Rightarrow>
                  Some (JStr (''0x'' @ take 64 (Buffer_hex a @ Buffer_hex (dec_int (clock w (reads w)))))))"
  using assms
  by (simp add: processPayment_def verifySignature_def Date_now_def invalid_result_fields
      valid_result_fields hash_of_def Buffer_hex_append split: sum.splits prod.splits)

lemma dec_int_1700000000000: "dec_int 1700000000000 = ''1700000000000''"
  by (simp add: dec_int_def dec_nat.simps)

lemma dec_int_1700000000002: "dec_int 1700000000002 = ''1700000000002''"
  by (simp add: dec_int_def dec_nat.simps)

lemma short_first_value:
  "short_first = (\<lparr>isValid = True,
      transactionHash = Some (JStr ''0x30783131373030303030303030303030''),
      error = None, verifiedAt = 1700000000001\<rparr>,
     \<lparr>clock = ticking, reads = 2, net_log = []\<rparr>)"
  by (simp add: short_first_def processPayment_def mock_config_def short_proof_def proof_of_def
      parse_transaction_field_def String_of_def prop_or_undefined_def verifySignature_def
      sample_runtime_sel sample_parse world0_def Date_now_def ticking_def valid_result_def
      dec_int_1700000000000 hash_of_def Buffer_hex_def utf8_def hex_byte_def hex_digit_def)

lemma short_second_value:
  "short_second = (\<lparr>isValid = True,
      transactionHash = Some (JStr ''0x30783131373030303030303030303032''),
      error = None, verifiedAt = 1700000000003\<rparr>,
     \<lparr>clock = ticking, reads = 4, net_log = []\<rparr>)"
  by (simp add: short_second_def short_first_value processPayment_def mock_config_def
      short_proof_def proof_of_def parse_transaction_field_def String_of_def
      prop_or_undefined_def verifySignature_def sample_runtime_sel sample_parse Date_now_def
      ticking_def valid_result_def dec_int_1700000000002 hash_of_def Buffer_hex_def utf8_def
      hex_byte_def hex_digit_def)

text \<open>
  Claim C4 asks that, in mock mode, two calls with the identical proof give the identical
  synthetic transaction hash. The hash is made of the address followed by the time of
  the call. For the proof with the address \<open>0x1\<close>, verified at two different times, the
  two hashes differ in their last digit.
\<close>

theorem mock_hash_counterexample:
  "transactionHash (fst short_first) = Some (JStr ''0x30783131373030303030303030303030'')
   \<and> transactionHash (fst short_second) = Some (JStr ''0x30783131373030303030303030303032'')"
  by (simp add: short_first_value short_second_value)

text \<open>
  Claim C4, as amended: the synthetic hash of mock mode is \<open>0x\<close> and the first 64 hex
  digits of the bytes of the address followed by the decimal text of the time of the
  call. Two calls with the same proof give the same hash exactly when the texts of their
  two times agree on the hex digits that still fall within the 64 (or the transaction does
  not parse, and neither call gives a hash). When the address of the proof is a string of
  at least 32 characters (an Aptos address has 66), no digit of the time falls within the
  64, and any two calls with the same proof give the same hash.
\<close>

theorem mock_hash_time_digits:
  assumes "mockMode config = Some True" and "get_prop pr ''address'' = Inr (Some (JStr a))"
  shows "transactionHash (fst (processPayment config rt pr w))
           = (case parse_transaction_field rt pr of
                Inl e \<Rightarrow> None
              | Inr tx \<Rightarrow>
                  Some (JStr (''0x'' @ take 64 (Buffer_hex a @ Buffer_hex (dec_int (clock w (reads w)))))))
     \<and> ((transactionHash (fst (processPayment config rt pr w))
            = transactionHash (fst (processPayment config rt pr w')))
          = ((\<exists>e. parse_transaction_field rt pr = Inl e)
             \<or> take (64 - length (Buffer_hex a)) (Buffer_hex (dec_int (clock w (reads w))))
                 = take (64 - length (Buffer_hex a)) (Buffer_hex (dec_int (clock w' (reads w'))))))
     \<and> (32 \<le> length a \<longrightarrow>
          transactionHash (fst (processPayment config rt pr w))
            = transactionHash (fst (processPayment config rt pr w')))"
proof (intro conjI impI)
  show "transactionHash (fst (processPayment config rt pr w))
           = (case parse_transaction_field rt pr of
                Inl e \<Rightarrow> None
              | Inr tx \<Rightarrow>
                  Some (JStr (''0x'' @ take 64 (Buffer_hex a @ Buffer_hex (dec_int (clock w (reads w)))))))"
    using assms by (rule mock_hash_formula)
  show "(transactionHash (fst (processPayment config rt pr w))
            = transactionHash (fst (processPayment config rt pr w')))
          = ((\<exists>e. parse_transaction_field rt pr = Inl e)
             \<or> take (64 - length (Buffer_hex a)) (Buffer_hex (dec_int (clock w (reads w))))
                 = take (64 - length (Buffer_hex a)) (Buffer_hex (dec_int (clock w' (reads w')))))"
    by (cases "parse_transaction_field rt pr") (simp_all add: mock_hash_formula [OF assms])
  assume "32 \<le> length a"
  then have "64 \<le> length (Buffer_hex a)"
    using length_utf8_bytes [of a] by (simp add: Buffer_hex_def length_hex_bytes)
  then show "transactionHash (fst (processPayment config rt pr w))
            = transactionHash (fst (processPayment config rt pr w'))"
    by (cases "parse_transaction_field rt pr") (simp_all add: mock_hash_formula [OF assms])
qed

lemma long_hash:
  "''0x'' @ take 64 (Buffer_hex payer_address @ t)
     = ''0x3078626366623461363063303330636235646361623861646337643732336663''"
  by (simp add: payer_address_def Buffer_hex_def utf8_def hex_byte_def hex_digit_def)

theorem mock_hash_time_digits_witness:
  "mockMode mock_config = Some True
   \<and> get_prop long_proof ''address'' = Inr (Some (JStr payer_address))
   \<and> 32 \<le> length payer_address
   \<and> transactionHash (fst (processPayment mock_config sample_runtime long_proof world0))
       = Some (JStr ''0x3078626366623461363063303330636235646361623861646337643732336663'')
   \<and> transactionHash (fst (processPayment mock_config sample_runtime long_proof
           (snd (processPayment mock_config sample_runtime long_proof world0))))
       = Some (JStr ''0x3078626366623461363063303330636235646361623861646337643732336663'')"
proof -
  have m: "mockMode mock_config = Some True"
    by (simp add: mock_config_def)
  have a: "get_prop long_proof ''address'' = Inr (Some (JStr payer_address))"
    by (simp add: long_proof_def proof_of_def)
  have l: "32 \<le> length payer_address"
    by (simp add: payer_address_def)
  have p: "parse_transaction_field sample_runtime long_proof = Inr sample_transaction"
    by (simp add: parse_transaction_field_def long_proof_def proof_of_def String_of_def
        sample_runtime_sel sample_parse)
  note inst = mock_hash_time_digits [OF m a, of sample_runtime world0
      "snd (processPayment mock_config sample_runtime long_proof world0)"]
  from inst have "transactionHash (fst (processPayment mock_config sample_runtime long_proof world0))
       = (case parse_transaction_field sample_runtime long_proof of
            Inl e \<Rightarrow> None
          | Inr tx \<Rightarrow>
              Some (JStr (''0x'' @ take 64 (Buffer_hex payer_address
                       @ Buffer_hex (dec_int (clock world0 (reads world0)))))))"
    by blast
  then have first: "transactionHash (fst (processPayment mock_config sample_runtime long_proof world0))
       = Some (JStr ''0x3078626366623461363063303330636235646361623861646337643732336663'')"
    by (simp only: p sum.case long_hash)
  from inst l have "transactionHash (fst (processPayment mock_config sample_runtime long_proof world0))
       = transactionHash (fst (processPayment mock_config sample_runtime long_proof
           (snd (processPayment mock_config sample_runtime long_proof world0))))"
    by blast
  with first m a l show ?thesis by simp
qed

subsection \<open>Failures are returned, not thrown\<close>

lemma submitTransaction_failed:
  assumes "fst (submitTransaction_try rt tx sig w) = Inl e"
  shows "if str_includes (message e) ''timeout'' \<or> str_includes (message e) ''confirmation''
         then \<exists>h. fst (submitTransaction rt tx sig w) = Inr h
         else fst (submitTransaction rt tx sig w)
                = Inl (new_Error (''Failed to submit transaction: '' @ message e))"
  using assms
  by (cases "submitTransaction_try rt tx sig w")
     (simp add: submitTransaction_def submitTransaction_catch_def Date_now_def split: prod.splits)

lemma createRealVerification_populated:
  "(isValid (fst (createRealVerification rt pr w)) \<longrightarrow>
      error (fst (createRealVerification rt pr w)) = None)
   \<and> (\<not> isValid (fst (createRealVerification rt pr w)) \<longrightarrow>
        (\<exists>m. error (fst (createRealVerification rt pr w)) = Some m)
        \<and> transactionHash (fst (createRealVerification rt pr w)) = None)"
  by (simp add: createRealVerification_def invalid_result_fields valid_result_fields
      split: sum.splits prod.splits)

lemma processPayment_populated:
  "(isValid (fst (processPayment config rt pr w)) \<longrightarrow>
      error (fst (processPayment config rt pr w)) = None)
   \<and> (\<not> isValid (fst (processPayment config rt pr w)) \<longrightarrow>
        (\<exists>m. error (fst (processPayment config rt pr w)) = Some m)
        \<and> transactionHash (fst (processPayment config rt pr w)) = None)"
  using createRealVerification_populated [of rt pr w]
  by (simp add: processPayment_def invalid_result_fields valid_result_fields
      split: sum.splits prod.splits)

lemma parse_error_invalid:
  assumes "parse_transaction_field rt pr = Inl e"
  shows "\<not> isValid (fst (processPayment config rt pr w))"
  using assms
  by (simp add: processPayment_def createRealVerification_def invalid_result_fields
      split: sum.splits)

lemma mock_valid_has_hash:
  assumes "mockMode config = Some True" and "isValid (fst (processPayment config rt pr w))"
  shows "\<exists>h. transactionHash (fst (processPayment config rt pr w)) = Some (JStr h)"
  using assms
  by (auto simp add: processPayment_def verifySignature_def invalid_result_fields
      valid_result_fields split: sum.splits prod.splits)

lemma real_submission_error:
  assumes "mockMode config \<noteq> Some True" and "get_prop pr ''address'' = Inr a"
    and "parse_transaction_field rt pr = Inr tx"
    and "fst (submitTransaction_try rt tx (prop_or_undefined pr ''signature'') w) = Inl e"
  shows "isValid (fst (processPayment config rt pr w))
           = (str_includes (message e) ''timeout'' \<or> str_includes (message e) ''confirmation'')"
    and "\<not> isValid (fst (processPayment config rt pr w)) \<Longrightarrow>
           error (fst (processPayment config rt pr w))
             = Some (''Failed to submit transaction: '' @ message e)"
  using assms submitTransaction_failed [OF assms(4)]
  by (auto simp add: processPayment_def createRealVerification_def verifySignature_def
      invalid_result_fields valid_result_fields new_Error_def
      split: prod.splits sum.splits if_splits)

lemma slow_runtime_sel:
  "JSON_parse slow_runtime = table_parse sample_texts"
  "JSON_stringify slow_runtime = json_text"
  "rest_payload slow_runtime = sample_rest_payload"
  "fetch_post slow_runtime = once_only_node"
  "waitForTransaction slow_runtime = (\<lambda>log h. Some (new_Error ''timeout of 30000ms exceeded''))"
  by (simp_all add: slow_runtime_def sample_runtime_def)

lemma slow_plan:
  "plan_submission slow_runtime sample_transaction (Some (JStr sample_signature_text))
     = Inr (ByRest sample_submission)"
proof -
  have "parse_transaction slow_runtime sample_transaction = Inr sample_transaction"
    by (simp add: parse_transaction_def sample_transaction_def)
  moreover have "parse_signature slow_runtime sample_transaction (Some (JStr sample_signature_text))
      = Inr (Given (Some sample_signature))"
    by (simp add: parse_signature_def sample_signature_not_hex slow_runtime_sel
        sample_signature_parse)
  moreover have "check_not_wallet_message sample_transaction = Inr ()"
    by (simp add: check_not_wallet_message_def sample_transaction_props)
  ultimately show ?thesis
    by (simp add: plan_submission_def sample_transaction_props sample_signature_authenticator
        slow_runtime_sel sample_rest_payload_def)
qed

lemma slow_try:
  "submitTransaction_try slow_runtime sample_transaction (Some (JStr sample_signature_text)) world0
     = (Inl (new_Error ''timeout of 30000ms exceeded''),
        \<lparr>clock = ticking, reads = 0,
          net_log = [RestPost sample_submission, WaitFor (Some (JStr ''0xfeed''))]\<rparr>)"
  by (simp add: submitTransaction_try_def slow_plan submit_plan_def slow_runtime_sel
      once_only_node_def rest_result_def world0_def net_send_def)

lemma slow_sample_parse:
  "parse_transaction_field slow_runtime sample_proof = Inr sample_transaction"
  by (simp add: parse_transaction_field_def sample_proof_def proof_of_def String_of_def
      slow_runtime_sel sample_parse)

text \<open>
  Claim C5 asks that every failure, a confirmation timeout among them, is answered with
  \<open>isValid = false\<close> and an error string. In the sample run the fullnode accepts the
  transaction and the wait for its confirmation fails with a timeout; \<open>processPayment\<close>
  answers \<open>isValid = true\<close> and no error.
\<close>

theorem timeout_counterexample:
  "fst (submitTransaction_try slow_runtime sample_transaction
          (Some (JStr sample_signature_text)) world0)
     = Inl (new_Error ''timeout of 30000ms exceeded'')
   \<and> isValid (fst slow_call) \<and> error (fst slow_call) = None"
  by (simp add: slow_call_def processPayment_def real_config_def sample_proof_props
      createRealVerification_def slow_sample_parse verifySignature_def submitTransaction_def
      slow_try submitTransaction_catch_def new_Error_def startsWith_def Date_now_def
      valid_result_def)

text \<open>
  Claim C5, as amended: \<open>processPayment\<close> never throws and always returns a populated
  result, which is either valid with no error, or invalid with an error string and no
  transaction hash. A transaction that does not parse gives an invalid result. In mock
  mode a valid result carries a hash. In real mode, when the submission or the wait for
  the confirmation throws, the result is valid exactly when the error's message mentions
  \<open>timeout\<close> or \<open>confirmation\<close> (the catch block of \<open>submitTransaction\<close> then returns a
  hash all the same); otherwise it is invalid and its error is that message behind
  \<open>Failed to submit transaction:\<close>.
\<close>

theorem processPayment_never_throws:
  "(isValid (fst (processPayment config rt pr w)) \<longrightarrow>
      error (fst (processPayment config rt pr w)) = None)
   \<and> (\<not> isValid (fst (processPayment config rt pr w)) \<longrightarrow>
        (\<exists>m. error (fst (processPayment config rt pr w)) = Some m)
        \<and> transactionHash (fst (processPayment config rt pr w)) = None)
   \<and> (parse_transaction_field rt pr = Inl e0 \<longrightarrow>
        \<not> isValid (fst (processPayment config rt pr w)))
   \<and> (mockMode config = Some True \<and> isValid (fst (processPayment config rt pr w)) \<longrightarrow>
        (\<exists>h. transactionHash (fst (processPayment config rt pr w)) = Some (JStr h)))
   \<and> (mockMode config \<noteq> Some True \<and> get_prop pr ''address'' = Inr a
        \<and> parse_transaction_field rt pr = Inr tx
        \<and> fst (submitTransaction_try rt tx (prop_or_undefined pr ''signature'') w) = Inl e \<longrightarrow>
        isValid (fst (processPayment config rt pr w))
          = (str_includes (message e) ''timeout'' \<or> str_includes (message e) ''confirmation'')
        \<and> (\<not> isValid (fst (processPayment config rt pr w)) \<longrightarrow>
             error (fst (processPayment config rt pr w))
               = Some (''Failed to submit transaction: '' @ message e)))"
  using processPayment_populated [of config rt pr w] parse_error_invalid [of rt pr e0 config w]
    mock_valid_has_hash [of config rt pr w] real_submission_error [of config pr a rt tx w e]
  by blast

lemma not_json_parse: "table_parse sample_texts ''not json'' = Inl (new_Error ''Unexpected token in JSON'')"
  by (simp add: table_parse_def sample_texts_def sample_transaction_text_def
      sample_signature_text_def proof_text_def proof_of_def json_quote_def)

lemma garbled_parse:
  "parse_transaction_field sample_runtime garbled_proof
     = Inl (new_Error ''Unexpected token in JSON'')"
  by (simp add: parse_transaction_field_def garbled_proof_def proof_of_def String_of_def
      sample_runtime_sel not_json_parse)

theorem processPayment_never_throws_witness:
  "parse_transaction_field sample_runtime garbled_proof
     = Inl (new_Error ''Unexpected token in JSON'')
   \<and> \<not> isValid (fst (processPayment mock_config sample_runtime garbled_proof world0))
   \<and> (\<exists>m. error (fst (processPayment mock_config sample_runtime garbled_proof world0)) = Some m)
   \<and> mockMode real_config \<noteq> Some True
   \<and> get_prop sample_proof ''address'' = Inr (Some (JStr ''0xa11c''))
   \<and> parse_transaction_field slow_runtime sample_proof = Inr sample_transaction
   \<and> fst (submitTransaction_try slow_runtime sample_transaction
            (prop_or_undefined sample_proof ''signature'') world0)
       = Inl (new_Error ''timeout of 30000ms exceeded'')
   \<and> isValid (fst (processPayment real_config slow_runtime sample_proof world0))"
proof -
  note garbled = processPayment_never_throws [of mock_config sample_runtime garbled_proof world0
      "new_Error ''Unexpected token in JSON''"]
  from garbled garbled_parse
  have invalid: "\<not> isValid (fst (processPayment mock_config sample_runtime garbled_proof world0))"
    by blast
  with garbled
  have reason: "\<exists>m. error (fst (processPayment mock_config sample_runtime garbled_proof world0)) = Some m"
    by blast
  have real: "mockMode real_config \<noteq> Some True"
    by (simp add: real_config_def)
  have thrown: "fst (submitTransaction_try slow_runtime sample_transaction
            (prop_or_undefined sample_proof ''signature'') world0)
       = Inl (new_Error ''timeout of 30000ms exceeded'')"
    by (simp add: sample_proof_props slow_try)
  have mentions: "str_includes (message (new_Error ''timeout of 30000ms exceeded''))
      ''timeout''"
    by (simp add: new_Error_def startsWith_def)
  from processPayment_never_throws [of real_config slow_runtime sample_proof world0 _
      "Some (JStr ''0xa11c'')" sample_transaction
      "new_Error ''timeout of 30000ms exceeded''"]
    real sample_proof_props(1) slow_sample_parse thrown mentions
  have "isValid (fst (processPayment real_config slow_runtime sample_proof world0))"
    by blast
  with garbled_parse invalid reason real sample_proof_props(1) slow_sample_parse thrown
  show ?thesis by blast
qed

section \<open>Properties of the gateways\<close>

subsection \<open>The clock along a run\<close>

lemma result_clock:
  "clock (snd (invalid_result m w)) = clock w"
  "reads (snd (invalid_result m w)) = Suc (reads w)"
  "clock (snd (valid_result h w)) = clock w"
  "reads (snd (valid_result h w)) = Suc (reads w)"
  by (simp_all add: invalid_result_def valid_result_def Date_now_def)

lemma submit_plan_clock:
  "clock (snd (submit_plan rt plan w)) = clock w \<and> reads (snd (submit_plan rt plan w)) = reads w"
  by (cases plan) (simp_all add: submit_plan_def net_send_def)

lemma submitTransaction_try_clock:
  "clock (snd (submitTransaction_try rt tx sig w)) = clock w
   \<and> reads (snd (submitTransaction_try rt tx sig w)) = reads w"
proof (cases "plan_submission rt tx sig")
  case (Inl e)
  then show ?thesis by (simp add: submitTransaction_try_def)
next
  case (Inr plan)
  with submit_plan_clock [of rt plan w] show ?thesis
    by (auto simp add: submitTransaction_try_def net_send_def
        split: prod.splits sum.splits option.splits)
qed

lemma submitTransaction_catch_clock:
  "clock (snd (submitTransaction_catch rt tx e w)) = clock w
   \<and> reads w \<le> reads (snd (submitTransaction_catch rt tx e w))"
  by (simp add: submitTransaction_catch_def Date_now_def split: prod.splits)

lemma submitTransaction_clock:
  "clock (snd (submitTransaction rt tx sig w)) = clock w
   \<and> reads w \<le> reads (snd (submitTransaction rt tx sig w))"
proof (cases "submitTransaction_try rt tx sig w")
  case (Pair r w1)
  with submitTransaction_try_clock [of rt tx sig w]
  have w1: "clock w1 = clock w" "reads w1 = reads w" by simp_all
  show ?thesis
  proof (cases r)
    case (Inl e)
    with Pair w1 submitTransaction_catch_clock [of rt tx e w1] show ?thesis
      by (simp add: submitTransaction_def)
  next
    case (Inr h)
    with Pair w1 show ?thesis by (simp add: submitTransaction_def)
  qed
qed

lemma createRealVerification_clock:
  "clock (snd (createRealVerification rt pr w)) = clock w
   \<and> reads w < reads (snd (createRealVerification rt pr w))"
proof -
  have sub: "\<And>tx sig r w1. submitTransaction rt tx sig w = (r, w1) \<Longrightarrow>
      clock w1 = clock w \<and> reads w \<le> reads w1"
    using submitTransaction_clock by (metis snd_conv)
  show ?thesis
    by (auto simp add: createRealVerification_def result_clock verifySignature_def
        split: sum.splits prod.splits dest!: sub)
qed

lemma processPayment_clock:
  "clock (snd (processPayment config rt pr w)) = clock w
   \<and> reads w < reads (snd (processPayment config rt pr w))"
  using createRealVerification_clock [of rt pr w]
  by (auto simp add: processPayment_def result_clock verifySignature_def Date_now_def
      invalid_result_def valid_result_def split: sum.splits prod.splits)

lemma payment_required_402_value:
  "payment_required_402 payTo route msg w =
     (Respond 402 (PaymentRequired
        \<lparr>amount = price route, token = AptosCoin, recipient = payTo,
         deadline = clock w (reads w) + 300000, nonce = None\<rparr> msg 5),
      w\<lparr>reads := Suc (reads w)\<rparr>)"
  by (simp add: payment_required_402_def Date_now_def)

lemma middleware_deadline:
  assumes "middleware config payTo routes rt req w = (Respond 402 (PaymentRequired p m r), w')"
  shows "reads w < reads w' \<and> deadline p = clock w (reads w' - 1) + 300000"
proof (cases "findMatchingRoute (path req) routes")
  case (Matched route)
  show ?thesis
  proof (cases "header_value (x_payment req)")
    case None
    with Matched assms show ?thesis
      by (auto simp add: middleware_def payment_required_402_value)
  next
    case (Some h)
    show ?thesis
    proof (cases "JSON_parse rt h")
      case (Inl e)
      with Matched Some assms show ?thesis by (simp add: middleware_def)
    next
      case (Inr pr)
      obtain v w1 where pp: "processPayment config rt (Some pr) w = (v, w1)"
        by (cases "processPayment config rt (Some pr) w")
      with processPayment_clock [of config rt "Some pr" w]
      have w1: "clock w1 = clock w" "reads w < reads w1" by simp_all
      from Matched Some Inr pp assms w1 show ?thesis
        by (auto simp add: middleware_def payment_required_402_value split: if_splits)
    qed
  qed
next
  case NoMatch
  with assms show ?thesis by (simp add: middleware_def)
next
  case OutsideFragment
  with assms show ?thesis by (simp add: middleware_def)
qed

subsection \<open>The gateway of the server package\<close>

lemma verifyPayment_clock:
  "clock (snd (verifyPayment config rt h w)) = clock w
   \<and> reads w \<le> reads (snd (verifyPayment config rt h w))"
  by (auto simp add: verifyPayment_def createMockVerification_def verify_failed_def Date_now_def
      Let_def split: sum.splits prod.splits)

lemma createPaymentRequired_value:
  "createPaymentRequired config rt route p w =
     ((\<lparr>amount = Price (price_amount p), token = price_token p,
        recipient = paymentAddress config, deadline = clock w (reads w) + 300000,
        nonce = Some (random36 rt (draws w) @ random36 rt (Suc (draws w)))\<rparr>,
       ''Payment required to access '' @ route, 5),
      w\<lparr>reads := Suc (reads w), draws := Suc (Suc (draws w))\<rparr>)"
  by (simp add: createPaymentRequired_def Date_now_def generateNonce_def)

lemma challenge_response_deadline:
  assumes "challenge_response config rt route routes msg w = (Respond 402 (PaymentRequired p m r), w')"
  shows "reads w' = Suc (reads w) \<and> clock w' = clock w \<and> deadline p = clock w (reads w) + 300000"
  using assms
  by (auto simp add: challenge_response_def createPaymentRequired_value internal_error_def
      split: lookup.splits)

lemma x402_deadline:
  assumes "createX402Middleware config routes rt req w = (Respond 402 (PaymentRequired p m r), w')"
  shows "reads w < reads w' \<and> deadline p = clock w (reads w' - 1) + 300000"
proof (cases "header_value (x_payment req)")
  case None
  with assms show ?thesis
    by (auto simp add: createX402Middleware_def Let_def split: option.splits bool.splits
        dest!: challenge_response_deadline)
next
  case (Some h)
  obtain v w1 where vp: "verifyPayment config rt h w = (v, w1)"
    by (cases "verifyPayment config rt h w")
  with verifyPayment_clock [of config rt h w]
  have w1: "clock w1 = clock w" "reads w \<le> reads w1" by simp_all
  from assms Some vp w1 show ?thesis
    by (auto simp add: createX402Middleware_def Let_def internal_error_def
        split: option.splits bool.splits sum.splits if_splits
        dest!: challenge_response_deadline)
qed

text \<open>
  Claim C8: every challenge issued in a 402 response has a deadline equal to its issuance
  time plus exactly the window of five minutes (300 s, that is \<open>5 * 60 * 1000\<close> ms), and
  so strictly after its issuance time. The issuance time is the reading of the clock
  taken when the challenge is built, which is the last reading of the run. The statement
  covers both gateways and both of their 402 responses (no proof, and a proof that
  failed).
\<close>

theorem challenge_deadline:
  "(createPaymentMiddleware payTo routes options rt req w
      = (Respond 402 (PaymentRequired p m r), w') \<longrightarrow>
      reads w < reads w' \<and> deadline p = clock w (reads w' - 1) + 5 * 60 * 1000
      \<and> clock w (reads w' - 1) < deadline p)
   \<and> (createX402Middleware sconfig sroutes srt req sw
      = (Respond 402 (PaymentRequired sp sm sr), sw') \<longrightarrow>
      reads sw < reads sw' \<and> deadline sp = clock sw (reads sw' - 1) + 5 * 60 * 1000
      \<and> clock sw (reads sw' - 1) < deadline sp)"
  using middleware_deadline [of _ payTo routes rt req w p m r w']
    x402_deadline [of sconfig sroutes srt req sw sp sm sr sw']
  by (auto simp add: createPaymentMiddleware_def)


subsection \<open>A request without a proof\<close>

lemma isPaymentRequired_of_config:
  "getPaymentConfig route routes = Matched cfg \<Longrightarrow> isPaymentRequired route routes = Some True"
  by (auto simp add: isPaymentRequired_def getPaymentConfig_def split: option.splits lookup.splits)

text \<open>
  Where the search finds the route of a request, a request without an \<open>X-Payment\<close> header
  (or with an empty one) is answered with 402 and a payment object that carries the
  configured price: in the gateway of the facilitator package the amount is the route's
  \<open>price\<close> itself; in the gateway of the server package it is the price string, or the
  \<open>amount\<close> of a price given with its asset. The missing header is not an error.
\<close>

lemma matched_route_challenge:
  "(findMatchingRoute (path req) routes = Matched route \<and> header_value (x_payment req) = None \<longrightarrow>
      createPaymentMiddleware payTo routes options rt req w
        = (Respond 402 (PaymentRequired
             \<lparr>amount = price route, token = AptosCoin, recipient = payTo,
              deadline = clock w (reads w) + 300000, nonce = None\<rparr>
             ''Payment required to access this resource'' 5),
           w\<lparr>reads := Suc (reads w)\<rparr>))
   \<and> (getPaymentConfig (request_method req @ '' '' @ path req) sroutes = Matched cfg
        \<and> header_value (x_payment req) = None \<longrightarrow>
      createX402Middleware sconfig sroutes srt req sw
        = (Respond 402 (PaymentRequired
             \<lparr>amount = Price (case price cfg of Price a \<Rightarrow> a | PriceOf a ast \<Rightarrow> a),
              token = (case price cfg of
                         Price a \<Rightarrow> ''0x1::aptos_coin::AptosCoin''
                       | PriceOf a None \<Rightarrow> ''0x1::aptos_coin::AptosCoin''
                       | PriceOf a (Some ast) \<Rightarrow>
                           if asset_address ast = [] then ''0x1::aptos_coin::AptosCoin''
                           else asset_address ast),
              recipient = paymentAddress sconfig, deadline = clock sw (reads sw) + 300000,
              nonce = Some (random36 srt (draws sw) @ random36 srt (Suc (draws sw)))\<rparr>
             (''Payment required to access '' @ request_method req @ '' '' @ path req) 5),
           sw\<lparr>reads := Suc (reads sw), draws := Suc (Suc (draws sw))\<rparr>))"
proof (intro conjI impI)
  assume "findMatchingRoute (path req) routes = Matched route \<and> header_value (x_payment req) = None"
  then show "createPaymentMiddleware payTo routes options rt req w
        = (Respond 402 (PaymentRequired
             \<lparr>amount = price route, token = AptosCoin, recipient = payTo,
              deadline = clock w (reads w) + 300000, nonce = None\<rparr>
             ''Payment required to access this resource'' 5),
           w\<lparr>reads := Suc (reads w)\<rparr>)"
    by (simp add: createPaymentMiddleware_def middleware_def payment_required_402_value)
next
  assume a: "getPaymentConfig (request_method req @ '' '' @ path req) sroutes = Matched cfg
        \<and> header_value (x_payment req) = None"
  then have "isPaymentRequired (request_method req @ '' '' @ path req) sroutes = Some True"
    by (simp add: isPaymentRequired_of_config)
  with a show "createX402Middleware sconfig sroutes srt req sw
        = (Respond 402 (PaymentRequired
             \<lparr>amount = Price (case price cfg of Price a \<Rightarrow> a | PriceOf a ast \<Rightarrow> a),
              token = (case price cfg of
                         Price a \<Rightarrow> ''0x1::aptos_coin::AptosCoin''
                       | PriceOf a None \<Rightarrow> ''0x1::aptos_coin::AptosCoin''
                       | PriceOf a (Some ast) \<Rightarrow>
                           if asset_address ast = [] then ''0x1::aptos_coin::AptosCoin''
                           else asset_address ast),
              recipient = paymentAddress sconfig, deadline = clock sw (reads sw) + 300000,
              nonce = Some (random36 srt (draws sw) @ random36 srt (Suc (draws sw)))\<rparr>
             (''Payment required to access '' @ request_method req @ '' '' @ path req) 5),
           sw\<lparr>reads := Suc (reads sw), draws := Suc (Suc (draws sw))\<rparr>)"
    by (simp add: createX402Middleware_def challenge_response_def createPaymentRequired_value
        price_amount_def price_token_def AptosCoin_def split: price.splits option.splits)
qed

lemma example_weather_unmatched: "findMatchingRoute ''/weather'' example_routes = NoMatch"
  by (simp add: findMatchingRoute_def example_routes_def regex_special_def)

lemma example_process_unmatched: "findMatchingRoute ''/api/process'' example_routes = NoMatch"
  by (simp add: findMatchingRoute_def example_routes_def regex_special_def)

lemma example_premium_matched:
  "findMatchingRoute ''/premium/content'' example_routes
     = Matched \<lparr>price = PriceOf ''10000000'' (Some \<lparr>asset_address = AptosCoin, asset_decimals = 8\<rparr>),
                network = Some ''aptos-testnet'', description = None\<rparr>"
  by (simp add: findMatchingRoute_def example_routes_def regex_special_def line_terminator_def)

text \<open>
  Claim C7 asks that a request to a priced route with no \<open>X-Payment\<close> header is answered
  with 402 and the configured price, as in its scenario: the route \<open>GET /weather\<close> priced
  at 1000000 and a request without a proof. The example server of the facilitator package
  and its README configure this very route, keyed \<open>GET /weather\<close>, and announce a 402 for
  the first request. The middleware of that package looks the table up with the path
  alone, \<open>/weather\<close>, finds no route and hands the request on: the resource is served
  without payment, and so is the processing route, keyed \<open>POST /api/process\<close>; only
  the premium routes, keyed by a path, are charged. The gateway of the server package,
  which looks up the method and the path, answers the same requests on the same table
  with 402 and the amounts 1000000 and 5000000.
\<close>

theorem method_keyed_routes_served_free:
  "map_of example_routes ''GET /weather''
     = Some \<lparr>price = Price ''1000000'', network = Some ''aptos-testnet'', description = None\<rparr>
   \<and> map_of example_routes ''POST /api/process''
     = Some \<lparr>price = Price ''5000000'', network = Some ''aptos-testnet'', description = None\<rparr>
   \<and> createPaymentMiddleware payee example_routes ''http://localhost:3001'' sample_runtime
        \<lparr>request_method = ''GET'', path = ''/weather'', x_payment = None\<rparr> world0
       = (Next None, world0)
   \<and> createPaymentMiddleware payee example_routes ''http://localhost:3001'' sample_runtime
        \<lparr>request_method = ''POST'', path = ''/api/process'', x_payment = None\<rparr> world0
       = (Next None, world0)
   \<and> createPaymentMiddleware payee example_routes ''http://localhost:3001'' sample_runtime
        \<lparr>request_method = ''GET'', path = ''/premium/content'', x_payment = None\<rparr> world0
       = (Respond 402 (PaymentRequired
            \<lparr>amount = PriceOf ''10000000''
                        (Some \<lparr>asset_address = ''0x1::aptos_coin::AptosCoin'', asset_decimals = 8\<rparr>),
             token = ''0x1::aptos_coin::AptosCoin'', recipient = payee,
             deadline = 1700000300000, nonce = None\<rparr>
            ''Payment required to access this resource'' 5),
          \<lparr>clock = ticking, reads = 1, net_log = []\<rparr>)
   \<and> createX402Middleware sample_server_config example_routes sample_server_runtime
        \<lparr>request_method = ''GET'', path = ''/weather'', x_payment = None\<rparr> server_world0
       = (Respond 402 (PaymentRequired
            \<lparr>amount = Price ''1000000'', token = ''0x1::aptos_coin::AptosCoin'',
             recipient = ''0xbcfb4a60c030cb5dcab8adc7d723fcc6f2bbfa432f595ae8eb1bdc436b928cbd'',
             deadline = 1700000300000, nonce = Some ''k3j9x2m1q0zk3j9x2m1q0z''\<rparr>
            ''Payment required to access GET /weather'' 5),
          \<lparr>clock = ticking, reads = 1, draws = 2, verify_log = []\<rparr>)
   \<and> createX402Middleware sample_server_config example_routes sample_server_runtime
        \<lparr>request_method = ''POST'', path = ''/api/process'', x_payment = None\<rparr> server_world0
       = (Respond 402 (PaymentRequired
            \<lparr>amount = Price ''5000000'', token = ''0x1::aptos_coin::AptosCoin'',
             recipient = ''0xbcfb4a60c030cb5dcab8adc7d723fcc6f2bbfa432f595ae8eb1bdc436b928cbd'',
             deadline = 1700000300000, nonce = Some ''k3j9x2m1q0zk3j9x2m1q0z''\<rparr>
            ''Payment required to access POST /api/process'' 5),
          \<lparr>clock = ticking, reads = 1, draws = 2, verify_log = []\<rparr>)"
proof -
  let ?weather = "\<lparr>price = Price ''1000000'', network = Some ''aptos-testnet'', description = None\<rparr>"
  let ?process = "\<lparr>price = Price ''5000000'', network = Some ''aptos-testnet'', description = None\<rparr>"
  have key: "map_of example_routes ''GET /weather'' = Some ?weather"
    and key': "map_of example_routes ''POST /api/process'' = Some ?process"
    by (simp_all add: example_routes_def)
  have free: "createPaymentMiddleware payee example_routes ''http://localhost:3001'' sample_runtime
        \<lparr>request_method = ''GET'', path = ''/weather'', x_payment = None\<rparr> world0
       = (Next None, world0)"
    by (simp add: createPaymentMiddleware_def middleware_def example_weather_unmatched)
  have free': "createPaymentMiddleware payee example_routes ''http://localhost:3001'' sample_runtime
        \<lparr>request_method = ''POST'', path = ''/api/process'', x_payment = None\<rparr> world0
       = (Next None, world0)"
    by (simp add: createPaymentMiddleware_def middleware_def example_process_unmatched)
  have premium: "createPaymentMiddleware payee example_routes ''http://localhost:3001'' sample_runtime
        \<lparr>request_method = ''GET'', path = ''/premium/content'', x_payment = None\<rparr> world0
       = (Respond 402 (PaymentRequired
            \<lparr>amount = PriceOf ''10000000''
                        (Some \<lparr>asset_address = ''0x1::aptos_coin::AptosCoin'', asset_decimals = 8\<rparr>),
             token = ''0x1::aptos_coin::AptosCoin'', recipient = payee,
             deadline = 1700000300000, nonce = None\<rparr>
            ''Payment required to access this resource'' 5),
          \<lparr>clock = ticking, reads = 1, net_log = []\<rparr>)"
    by (simp add: createPaymentMiddleware_def middleware_def example_premium_matched
        header_value_def payment_required_402_value AptosCoin_def world0_def ticking_def)
  have cfg: "getPaymentConfig ''GET /weather'' example_routes = Matched ?weather"
    and cfg': "getPaymentConfig ''POST /api/process'' example_routes = Matched ?process"
    by (simp_all add: getPaymentConfig_def key key')
  have paid: "createX402Middleware sample_server_config example_routes sample_server_runtime
        \<lparr>request_method = ''GET'', path = ''/weather'', x_payment = None\<rparr> server_world0
       = (Respond 402 (PaymentRequired
            \<lparr>amount = Price ''1000000'', token = ''0x1::aptos_coin::AptosCoin'',
             recipient = ''0xbcfb4a60c030cb5dcab8adc7d723fcc6f2bbfa432f595ae8eb1bdc436b928cbd'',
             deadline = 1700000300000, nonce = Some ''k3j9x2m1q0zk3j9x2m1q0z''\<rparr>
            ''Payment required to access GET /weather'' 5),
          \<lparr>clock = ticking, reads = 1, draws = 2, verify_log = []\<rparr>)"
    by (simp add: createX402Middleware_def isPaymentRequired_of_config [OF cfg]
        challenge_response_def cfg createPaymentRequired_value header_value_def price_amount_def
        price_token_def AptosCoin_def sample_server_config_def sample_server_runtime_def
        server_world0_def ticking_def)
  have paid': "createX402Middleware sample_server_config example_routes sample_server_runtime
        \<lparr>request_method = ''POST'', path = ''/api/process'', x_payment = None\<rparr> server_world0
       = (Respond 402 (PaymentRequired
            \<lparr>amount = Price ''5000000'', token = ''0x1::aptos_coin::AptosCoin'',
             recipient = ''0xbcfb4a60c030cb5dcab8adc7d723fcc6f2bbfa432f595ae8eb1bdc436b928cbd'',
             deadline = 1700000300000, nonce = Some ''k3j9x2m1q0zk3j9x2m1q0z''\<rparr>
            ''Payment required to access POST /api/process'' 5),
          \<lparr>clock = ticking, reads = 1, draws = 2, verify_log = []\<rparr>)"
    by (simp add: createX402Middleware_def isPaymentRequired_of_config [OF cfg']
        challenge_response_def cfg' createPaymentRequired_value header_value_def price_amount_def
        price_token_def AptosCoin_def sample_server_config_def sample_server_runtime_def
        server_world0_def ticking_def)
  from key key' free free' premium paid paid' show ?thesis by blast
qed

subsection \<open>A request with a proof\<close>

text \<open>
  Claim C6, as amended: on a priced route, an \<open>X-Payment\<close> header that is not parseable
  JSON is answered with status 400 and the error \<open>Invalid payment header format\<close>; a
  header that parses is either admitted or answered with 402 and the message
  \<open>Payment verification failed:\<close> followed by the reason. Neither leads to a 5xx.
\<close>

theorem malformed_header_response:
  "findMatchingRoute (path req) routes = Matched route \<and> header_value (x_payment req) = Some h \<longrightarrow>
     (case JSON_parse rt h of
        Inl e \<Rightarrow>
          createPaymentMiddleware payTo routes options rt req w
            = (Respond 400 (ErrorBody ''Invalid payment header format''), w)
      | Inr pr \<Rightarrow>
          (\<exists>v w'. createPaymentMiddleware payTo routes options rt req w = (Next (Some v), w')
                   \<and> isValid v)
          \<or> (\<exists>p m w'. createPaymentMiddleware payTo routes options rt req w
                = (Respond 402 (PaymentRequired p (''Payment verification failed: '' @ m) 5), w')))"
  by (auto simp add: createPaymentMiddleware_def middleware_def payment_required_402_value
      split: sum.splits prod.splits)

lemma real_mode_accepts:
  assumes "mockMode config \<noteq> Some True"
    and "get_prop pr ''address'' = Inr a"
    and "parse_transaction_field rt pr = Inr tx"
    and "plan_submission rt tx (prop_or_undefined pr ''signature'') = Inr plan"
    and "submit_plan rt plan w = (Inr txHash, w1)"
    and "waitForTransaction rt (net_log w1) txHash = None"
  shows "processPayment config rt pr w
           = (\<lparr>isValid = True, transactionHash = txHash, error = None,
                verifiedAt = clock w1 (reads w1)\<rparr>,
              (net_send (WaitFor txHash) w1)\<lparr>reads := Suc (reads w1)\<rparr>)"
  using assms
  by (simp add: processPayment_def createRealVerification_def verifySignature_def
      submitTransaction_def submitTransaction_try_def valid_result_def Date_now_def net_send_def)

lemma middleware_admission:
  assumes "findMatchingRoute (path req) routes = Matched route"
    and "findMatchingRoute (path req) routes' = Matched route'"
  shows "(middleware config payTo routes rt req w = (Next v, w'))
           = (middleware config payTo' routes' rt req w = (Next v, w'))"
proof (cases "header_value (x_payment req)")
  case None
  with assms show ?thesis by (simp add: middleware_def payment_required_402_value)
next
  case (Some h)
  show ?thesis
  proof (cases "JSON_parse rt h")
    case (Inl e)
    with Some assms show ?thesis by (simp add: middleware_def)
  next
    case (Inr pr)
    obtain r w1 where "processPayment config rt (Some pr) w = (r, w1)"
      by (cases "processPayment config rt (Some pr) w")
    with Some Inr assms show ?thesis
      by (simp add: middleware_def payment_required_402_value)
  qed
qed


text \<open>
  Claim C2, as amended: proof verification compares neither the amount nor the recipient
  of the proof's transaction with the route. Whether a gateway admits a request, and with
  which verification, is the same whatever the price of the route and the payment address
  are. In mock mode the gateway admits every proof whose address is a string and whose
  transaction blob parses as JSON. In real mode \<open>createRealVerification\<close>, and with it
  \<open>processPayment\<close> and the gateway, answer \<open>isValid = true\<close> for every proof whose
  transaction reaches the submission and is accepted and confirmed by the ledger. In both
  modes this holds whatever the transaction \<open>tx\<close> carries.
\<close>

theorem amount_and_recipient_unchecked:
  "(findMatchingRoute (path req) routes = Matched route
      \<and> findMatchingRoute (path req) routes' = Matched route' \<longrightarrow>
      ((createPaymentMiddleware payTo routes options rt req w = (Next v, w'))
         = (createPaymentMiddleware payTo' routes' options rt req w = (Next v, w')))
      \<and> ((customPaymentMiddleware payTo routes options rt req w = (Next v, w'))
           = (customPaymentMiddleware payTo' routes' options rt req w = (Next v, w'))))
   \<and> (findMatchingRoute (path req) routes = Matched route \<and> header_value (x_payment req) = Some h
        \<and> JSON_parse rt h = Inr pr \<and> get_prop (Some pr) ''address'' = Inr (Some (JStr a))
        \<and> parse_transaction_field rt (Some pr) = Inr tx \<longrightarrow>
      createPaymentMiddleware payTo routes options rt req w
        = (Next (Some \<lparr>isValid = True,
                       transactionHash = Some (JStr (hash_of (a @ dec_int (clock w (reads w))))),
                       error = None, verifiedAt = clock w (Suc (reads w))\<rparr>),
           w\<lparr>reads := Suc (Suc (reads w))\<rparr>))
   \<and> (get_prop (Some pr) ''address'' = Inr addr
        \<and> parse_transaction_field rt (Some pr) = Inr tx
        \<and> plan_submission rt tx (prop_or_undefined (Some pr) ''signature'') = Inr plan
        \<and> submit_plan rt plan w = (Inr txHash, w1)
        \<and> waitForTransaction rt (net_log w1) txHash = None \<longrightarrow>
      createRealVerification rt (Some pr) w
        = (\<lparr>isValid = True, transactionHash = txHash, error = None,
             verifiedAt = clock w1 (reads w1)\<rparr>,
           (net_send (WaitFor txHash) w1)\<lparr>reads := Suc (reads w1)\<rparr>)
      \<and> (mockMode config \<noteq> Some True \<longrightarrow>
            processPayment config rt (Some pr) w = createRealVerification rt (Some pr) w)
      \<and> (findMatchingRoute (path req) routes = Matched route
            \<and> header_value (x_payment req) = Some h \<and> JSON_parse rt h = Inr pr \<longrightarrow>
          customPaymentMiddleware payTo routes options rt req w
            = (Next (Some \<lparr>isValid = True, transactionHash = txHash, error = None,
                           verifiedAt = clock w1 (reads w1)\<rparr>),
               (net_send (WaitFor txHash) w1)\<lparr>reads := Suc (reads w1)\<rparr>)))"
proof (intro conjI impI)
  assume "findMatchingRoute (path req) routes = Matched route
      \<and> findMatchingRoute (path req) routes' = Matched route'"
  then have m: "findMatchingRoute (path req) routes = Matched route"
    and m': "findMatchingRoute (path req) routes' = Matched route'"
    by simp_all
  show "(createPaymentMiddleware payTo routes options rt req w = (Next v, w'))
         = (createPaymentMiddleware payTo' routes' options rt req w = (Next v, w'))"
    unfolding createPaymentMiddleware_def by (rule middleware_admission [OF m m'])
  show "(customPaymentMiddleware payTo routes options rt req w = (Next v, w'))
         = (customPaymentMiddleware payTo' routes' options rt req w = (Next v, w'))"
    unfolding customPaymentMiddleware_def by (rule middleware_admission [OF m m'])
next
  assume "findMatchingRoute (path req) routes = Matched route \<and> header_value (x_payment req) = Some h
        \<and> JSON_parse rt h = Inr pr \<and> get_prop (Some pr) ''address'' = Inr (Some (JStr a))
        \<and> parse_transaction_field rt (Some pr) = Inr tx"
  then show "createPaymentMiddleware payTo routes options rt req w
        = (Next (Some \<lparr>isValid = True,
                       transactionHash = Some (JStr (hash_of (a @ dec_int (clock w (reads w))))),
                       error = None, verifiedAt = clock w (Suc (reads w))\<rparr>),
           w\<lparr>reads := Suc (Suc (reads w))\<rparr>)"
    by (simp add: createPaymentMiddleware_def middleware_def processPayment_def verifySignature_def
        Date_now_def valid_result_def)
next
  assume r: "get_prop (Some pr) ''address'' = Inr addr
        \<and> parse_transaction_field rt (Some pr) = Inr tx
        \<and> plan_submission rt tx (prop_or_undefined (Some pr) ''signature'') = Inr plan
        \<and> submit_plan rt plan w = (Inr txHash, w1)
        \<and> waitForTransaction rt (net_log w1) txHash = None"
  have real: "processPayment \<lparr>aptosNetwork = Testnet, port = 4021, mockMode = Some False\<rparr> rt (Some pr) w
      = (\<lparr>isValid = True, transactionHash = txHash, error = None,
           verifiedAt = clock w1 (reads w1)\<rparr>,
         (net_send (WaitFor txHash) w1)\<lparr>reads := Suc (reads w1)\<rparr>)"
  proof (rule real_mode_accepts)
    show "mockMode \<lparr>aptosNetwork = Testnet, port = 4021, mockMode = Some False\<rparr> \<noteq> Some True"
      by simp
    from r show "get_prop (Some pr) ''address'' = Inr addr"
      and "parse_transaction_field rt (Some pr) = Inr tx"
      and "plan_submission rt tx (prop_or_undefined (Some pr) ''signature'') = Inr plan"
      and "submit_plan rt plan w = (Inr txHash, w1)"
      and "waitForTransaction rt (net_log w1) txHash = None"
      by simp_all
  qed
  with r show "createRealVerification rt (Some pr) w
        = (\<lparr>isValid = True, transactionHash = txHash, error = None,
             verifiedAt = clock w1 (reads w1)\<rparr>,
           (net_send (WaitFor txHash) w1)\<lparr>reads := Suc (reads w1)\<rparr>)"
    by (simp add: processPayment_def)
  {
    assume "mockMode config \<noteq> Some True"
    with r show "processPayment config rt (Some pr) w = createRealVerification rt (Some pr) w"
      by (simp add: processPayment_def)
  }
  {
    assume "findMatchingRoute (path req) routes = Matched route
            \<and> header_value (x_payment req) = Some h \<and> JSON_parse rt h = Inr pr"
    with real show "customPaymentMiddleware payTo routes options rt req w
            = (Next (Some \<lparr>isValid = True, transactionHash = txHash, error = None,
                           verifiedAt = clock w1 (reads w1)\<rparr>),
               (net_send (WaitFor txHash) w1)\<lparr>reads := Suc (reads w1)\<rparr>)"
      by (simp add: customPaymentMiddleware_def middleware_def)
  }
qed


subsection \<open>Wildcards\<close>

lemma star_not_special: "\<not> regex_special (CHR ''*'')"
  by (simp add: regex_special_def)

lemma compile_literal_prefix:
  assumes "\<forall>c\<in>set pre. \<not> regex_special c \<and> c \<noteq> CHR ''*'' \<and> c \<noteq> CHR ''.''"
  shows "compile_route (pre @ ''*'') = Some (map Lit pre @ [AnyRun])"
  using assms by (induction pre) (simp_all add: star_not_special)

lemma rx_match_literals:
  "rx_match (map Lit pre @ r) p = (take (length pre) p = pre \<and> rx_match r (drop (length pre) p))"
proof (induction pre arbitrary: p)
  case Nil
  then show ?case by simp
next
  case (Cons c cs)
  then show ?case by (cases p) auto
qed

lemma rx_match_any_run: "rx_match [AnyRun] s = (\<forall>c\<in>set s. \<not> line_terminator c)"
  by (induction s) auto

text \<open>
  Claim C3, as amended: a \<open>*\<close> in a route pattern stands for \<open>.*\<close>, any run of zero or
  more characters other than line terminators, slashes included: it covers any number of
  path segments. For a pattern made of a literal prefix followed by \<open>*\<close>, the paths that
  match are exactly those that begin with the prefix and have no line terminator after
  it.
\<close>

theorem wildcard_matches_any_run:
  assumes "\<forall>c\<in>set pre. \<not> regex_special c \<and> c \<noteq> CHR ''*'' \<and> c \<noteq> CHR ''.''"
  shows "findMatchingRoute p [(pre @ ''*'', cfg)]
           = (if take (length pre) p = pre \<and> (\<forall>c\<in>set (drop (length pre) p). \<not> line_terminator c)
              then Matched cfg else NoMatch)"
proof (cases "p = pre @ ''*''")
  case True
  then show ?thesis by (simp add: findMatchingRoute_def line_terminator_def)
next
  case False
  then show ?thesis
    by (simp add: findMatchingRoute_def compile_literal_prefix [OF assms] rx_match_literals
        rx_match_any_run)
qed

text \<open>
  Claim C3 asks that a \<open>*\<close> matches exactly one path segment, so that \<open>/premium/a/b\<close> does
  not match \<open>/premium/*\<close>. In both packages it does match.
\<close>

theorem wildcard_counterexample:
  "findMatchingRoute ''/premium/a/b'' sample_routes = Matched (route_of ''10000000'')
   \<and> isPaymentRequired ''GET /premium/a/b'' server_routes = Some True"
  by (simp add: findMatchingRoute_def isPaymentRequired_def sample_routes_def server_routes_def
      regex_special_def line_terminator_def)


subsection \<open>The sample requests\<close>

lemma weather_route: "findMatchingRoute ''/weather'' sample_routes = Matched (route_of ''1000000'')"
  by (simp add: findMatchingRoute_def sample_routes_def)

lemma weather_request_sel:
  "path (weather_request h) = ''/weather''"
  "request_method (weather_request h) = ''GET''"
  "x_payment (weather_request h) = h"
  by (simp_all add: weather_request_def)

lemma server_weather_config:
  "getPaymentConfig ''GET /weather'' server_routes = Matched (route_of ''1000000'')"
  by (simp add: getPaymentConfig_def server_routes_def)

theorem challenge_deadline_witness:
  "createPaymentMiddleware payee sample_routes ''http://localhost:3001'' sample_runtime
        (weather_request None) world0
       = (Respond 402 (PaymentRequired
            \<lparr>amount = Price ''1000000'', token = AptosCoin, recipient = payee,
             deadline = 1700000300000, nonce = None\<rparr>
            ''Payment required to access this resource'' 5),
          world0\<lparr>reads := 1\<rparr>)
   \<and> clock world0 (reads (world0\<lparr>reads := 1\<rparr>) - 1) = 1700000000000
   \<and> createX402Middleware sample_server_config server_routes sample_server_runtime
        (weather_request None) server_world0
       = (Respond 402 (PaymentRequired
            \<lparr>amount = Price ''1000000'', token = AptosCoin,
             recipient = paymentAddress sample_server_config,
             deadline = 1700000300000, nonce = Some ''k3j9x2m1q0zk3j9x2m1q0z''\<rparr>
            ''Payment required to access GET /weather'' 5),
          server_world0\<lparr>reads := 1, draws := 2\<rparr>)
   \<and> clock server_world0 (reads (server_world0\<lparr>reads := 1, draws := 2\<rparr>) - 1) = 1700000000000"
proof -
  have f: "createPaymentMiddleware payee sample_routes ''http://localhost:3001'' sample_runtime
        (weather_request None) world0
       = (Respond 402 (PaymentRequired
            \<lparr>amount = Price ''1000000'', token = AptosCoin, recipient = payee,
             deadline = 1700000300000, nonce = None\<rparr>
            ''Payment required to access this resource'' 5),
          world0\<lparr>reads := 1\<rparr>)"
    by (simp add: createPaymentMiddleware_def middleware_def weather_route weather_request_sel
        header_value_def payment_required_402_value route_of_def world0_def ticking_def)
  have s: "createX402Middleware sample_server_config server_routes sample_server_runtime
        (weather_request None) server_world0
       = (Respond 402 (PaymentRequired
            \<lparr>amount = Price ''1000000'', token = AptosCoin,
             recipient = paymentAddress sample_server_config,
             deadline = 1700000300000, nonce = Some ''k3j9x2m1q0zk3j9x2m1q0z''\<rparr>
            ''Payment required to access GET /weather'' 5),
          server_world0\<lparr>reads := 1, draws := 2\<rparr>)"
    by (simp add: createX402Middleware_def weather_request_sel header_value_def
        isPaymentRequired_of_config [OF server_weather_config] challenge_response_def
        server_weather_config createPaymentRequired_value route_of_def server_world0_def
        ticking_def price_amount_def price_token_def sample_server_runtime_def)
  from challenge_deadline [of payee sample_routes "''http://localhost:3001''" sample_runtime
      "weather_request None" world0 _ _ _ "world0\<lparr>reads := 1\<rparr>"
      sample_server_config server_routes sample_server_runtime server_world0 _ _ _
      "server_world0\<lparr>reads := 1, draws := 2\<rparr>"] f s
  have "clock world0 (reads (world0\<lparr>reads := 1\<rparr>) - 1) + 5 * 60 * 1000 = 1700000300000
      \<and> clock server_world0 (reads (server_world0\<lparr>reads := 1, draws := 2\<rparr>) - 1) + 5 * 60 * 1000
          = 1700000300000"
    by (auto simp add: world0_def server_world0_def ticking_def)
  with f s show ?thesis by (simp add: world0_def server_world0_def ticking_def)
qed

lemma garbled_header_parse:
  "JSON_parse sample_runtime ''not json'' = Inl (new_Error ''Unexpected token in JSON'')"
  by (simp add: sample_runtime_sel not_json_parse)

theorem malformed_header_response_witness:
  "findMatchingRoute (path (weather_request (Some ''not json''))) sample_routes
     = Matched (route_of ''1000000'')
   \<and> header_value (x_payment (weather_request (Some ''not json''))) = Some ''not json''
   \<and> JSON_parse sample_runtime ''not json'' = Inl (new_Error ''Unexpected token in JSON'')
   \<and> fst garbled_outcome = Respond 400 (ErrorBody ''Invalid payment header format'')"
  using malformed_header_response [where req = "weather_request (Some ''not json'')"
      and routes = sample_routes and route = "route_of ''1000000''" and h = "''not json''"
      and rt = sample_runtime and payTo = payee and options = "''http://localhost:3001''"
      and w = world0]
  by (simp add: weather_route weather_request_sel header_value_def garbled_header_parse
      garbled_outcome_def)

text \<open>
  Claim C6 asks that a header that is not a structurally valid proof, such as one that
  is not parseable JSON, is answered with 402 and never with another status. The gateway
  of the facilitator package answers the header \<open>not json\<close> with 400.
\<close>

theorem malformed_header_counterexample:
  "garbled_outcome = (Respond 400 (ErrorBody ''Invalid payment header format''), world0)"
  by (simp add: garbled_outcome_def createPaymentMiddleware_def middleware_def weather_route
      weather_request_sel header_value_def garbled_header_parse)

lemma header_value_nonempty:
  "header_value (Some (proof_text t a)) = Some (proof_text t a)"
  by (simp add: header_value_def proof_text_def proof_of_def)

lemma sample_header_parse:
  "JSON_parse sample_runtime (proof_text sample_transaction_text ''0xa11c'')
     = Inr (proof_of sample_transaction_text ''0xa11c'')"
proof -
  have "proof_text sample_transaction_text ''0xa11c'' \<noteq> sample_transaction_text"
    and "proof_text sample_transaction_text ''0xa11c'' \<noteq> sample_signature_text"
    by (simp_all add: proof_text_def proof_of_def json_quote_def sample_transaction_text_def
        sample_signature_text_def)
  then show ?thesis
    by (simp add: sample_runtime_sel table_parse_def sample_texts_def)
qed

lemma sample_field_parse:
  "parse_transaction_field sample_runtime (Some (proof_of sample_transaction_text ''0xa11c''))
     = Inr sample_transaction"
  using sample_proof_parse by (simp add: sample_proof_def)

lemma proof_of_address: "get_prop (Some (proof_of t a)) ''address'' = Inr (Some (JStr a))"
  by (simp add: proof_of_def)

lemma exact_weather_route: "findMatchingRoute ''/weather'' exact_routes = Matched (route_of ''1'')"
  by (simp add: findMatchingRoute_def exact_routes_def)

lemma sample_proof_signature:
  "prop_or_undefined (Some (proof_of t a)) ''signature'' = Some (JStr sample_signature_text)"
  by (simp add: proof_of_def prop_or_undefined_def)

lemma sample_submit:
  "submit_plan sample_runtime (ByRest sample_submission) world0
     = (Inr (Some (JStr ''0xfeed'')), world0\<lparr>net_log := [RestPost sample_submission]\<rparr>)"
  by (simp add: submit_plan_def sample_runtime_sel once_only_node_def rest_result_def world0_def
      net_send_def)

lemma underpaid_outcome_value:
  "underpaid_outcome
     = (Next (Some \<lparr>isValid = True,
                    transactionHash = Some (JStr ''0x30786131316331373030303030303030303030''),
                    error = None, verifiedAt = 1700000000001\<rparr>),
        world0\<lparr>reads := 2\<rparr>)"
  by (simp add: underpaid_outcome_def createPaymentMiddleware_def middleware_def weather_route
      weather_request_sel header_value_nonempty sample_header_parse processPayment_def
      sample_field_parse verifySignature_def Date_now_def valid_result_def world0_def ticking_def
      proof_of_address dec_int_1700000000000 hash_of_def Buffer_hex_def utf8_def hex_byte_def
      hex_digit_def)

lemma real_outcome_value:
  "real_outcome
     = (Next (Some \<lparr>isValid = True, transactionHash = Some (JStr ''0xfeed''), error = None,
                    verifiedAt = 1700000000000\<rparr>),
        \<lparr>clock = ticking, reads = 1,
          net_log = [RestPost sample_submission, WaitFor (Some (JStr ''0xfeed''))]\<rparr>)"
proof -
  let ?config = "\<lparr>aptosNetwork = Testnet, port = 4021, mockMode = Some False\<rparr>"
  let ?pr = "Some (proof_of sample_transaction_text ''0xa11c'')"
  let ?w1 = "world0\<lparr>net_log := [RestPost sample_submission]\<rparr>"
  have real: "mockMode ?config \<noteq> Some True"
    by simp
  have pl: "plan_submission sample_runtime sample_transaction (prop_or_undefined ?pr ''signature'')
      = Inr (ByRest sample_submission)"
    by (simp add: sample_proof_signature sample_plan)
  have wt: "waitForTransaction sample_runtime (net_log ?w1) (Some (JStr ''0xfeed'')) = None"
    by (simp add: sample_runtime_sel)
  have "processPayment ?config sample_runtime ?pr world0
      = (\<lparr>isValid = True, transactionHash = Some (JStr ''0xfeed''), error = None,
           verifiedAt = clock ?w1 (reads ?w1)\<rparr>,
         (net_send (WaitFor (Some (JStr ''0xfeed''))) ?w1)\<lparr>reads := Suc (reads ?w1)\<rparr>)"
    by (rule real_mode_accepts [OF real proof_of_address sample_field_parse pl sample_submit wt])
  then show ?thesis
    by (simp add: real_outcome_def customPaymentMiddleware_def middleware_def weather_route
        weather_request_sel header_value_nonempty sample_header_parse world0_def net_send_def
        ticking_def)
qed

theorem amount_and_recipient_unchecked_witness:
  "findMatchingRoute (path (weather_request (Some (proof_text sample_transaction_text ''0xa11c''))))
      sample_routes = Matched (route_of ''1000000'')
   \<and> findMatchingRoute (path (weather_request (Some (proof_text sample_transaction_text ''0xa11c''))))
      exact_routes = Matched (route_of ''1'')
   \<and> header_value (x_payment (weather_request (Some (proof_text sample_transaction_text ''0xa11c''))))
       = Some (proof_text sample_transaction_text ''0xa11c'')
   \<and> JSON_parse sample_runtime (proof_text sample_transaction_text ''0xa11c'')
       = Inr (proof_of sample_transaction_text ''0xa11c'')
   \<and> get_prop (Some (proof_of sample_transaction_text ''0xa11c'')) ''address''
       = Inr (Some (JStr ''0xa11c''))
   \<and> parse_transaction_field sample_runtime (Some (proof_of sample_transaction_text ''0xa11c''))
       = Inr sample_transaction
   \<and> plan_submission sample_runtime sample_transaction
        (prop_or_undefined (Some (proof_of sample_transaction_text ''0xa11c'')) ''signature'')
       = Inr (ByRest sample_submission)
   \<and> submit_plan sample_runtime (ByRest sample_submission) world0
       = (Inr (Some (JStr ''0xfeed'')), world0\<lparr>net_log := [RestPost sample_submission]\<rparr>)
   \<and> waitForTransaction sample_runtime
        (net_log (world0\<lparr>net_log := [RestPost sample_submission]\<rparr>)) (Some (JStr ''0xfeed''))
       = None
   \<and> mockMode real_config \<noteq> Some True
   \<and> underpaid_outcome
       = (Next (Some \<lparr>isValid = True,
                      transactionHash = Some (JStr ''0x30786131316331373030303030303030303030''),
                      error = None, verifiedAt = 1700000000001\<rparr>),
          world0\<lparr>reads := 2\<rparr>)
   \<and> createPaymentMiddleware ''0x0e'' exact_routes ''http://localhost:3001'' sample_runtime
        (weather_request (Some (proof_text sample_transaction_text ''0xa11c''))) world0
       = underpaid_outcome
   \<and> first_call
       = (\<lparr>isValid = True, transactionHash = Some (JStr ''0xfeed''), error = None,
            verifiedAt = 1700000000000\<rparr>,
          \<lparr>clock = ticking, reads = 1,
            net_log = [RestPost sample_submission, WaitFor (Some (JStr ''0xfeed''))]\<rparr>)
   \<and> real_outcome = (Next (Some (fst first_call)), snd first_call)
   \<and> customPaymentMiddleware ''0x0e'' exact_routes ''http://localhost:4021'' sample_runtime
        (weather_request (Some (proof_text sample_transaction_text ''0xa11c''))) world0
       = real_outcome"
proof -
  let ?h = "proof_text sample_transaction_text ''0xa11c''"
  let ?pr = "proof_of sample_transaction_text ''0xa11c''"
  let ?req = "weather_request (Some ?h)"
  let ?w1 = "world0\<lparr>net_log := [RestPost sample_submission]\<rparr>"
  let ?mock = "\<lparr>isValid = True,
      transactionHash = Some (JStr ''0x30786131316331373030303030303030303030''),
      error = None, verifiedAt = 1700000000001\<rparr>"
  let ?real = "\<lparr>isValid = True, transactionHash = Some (JStr ''0xfeed''), error = None,
      verifiedAt = 1700000000000\<rparr>"
  let ?w2 = "\<lparr>clock = ticking, reads = 1,
      net_log = [RestPost sample_submission, WaitFor (Some (JStr ''0xfeed''))]\<rparr>"
  have m: "findMatchingRoute (path ?req) sample_routes = Matched (route_of ''1000000'')"
    by (simp add: weather_request_sel weather_route)
  have m': "findMatchingRoute (path ?req) exact_routes = Matched (route_of ''1'')"
    by (simp add: weather_request_sel exact_weather_route)
  have h: "header_value (x_payment ?req) = Some ?h"
    by (simp add: weather_request_sel header_value_nonempty)
  have p: "JSON_parse sample_runtime ?h = Inr ?pr"
    by (rule sample_header_parse)
  have a: "get_prop (Some ?pr) ''address'' = Inr (Some (JStr ''0xa11c''))"
    by (rule proof_of_address)
  have t: "parse_transaction_field sample_runtime (Some ?pr) = Inr sample_transaction"
    by (rule sample_field_parse)
  have pl: "plan_submission sample_runtime sample_transaction
        (prop_or_undefined (Some ?pr) ''signature'') = Inr (ByRest sample_submission)"
    by (simp add: sample_proof_signature sample_plan)
  have s: "submit_plan sample_runtime (ByRest sample_submission) world0
       = (Inr (Some (JStr ''0xfeed'')), ?w1)"
    by (rule sample_submit)
  have wt: "waitForTransaction sample_runtime (net_log ?w1) (Some (JStr ''0xfeed'')) = None"
    by (simp add: sample_runtime_sel)
  have r: "mockMode real_config \<noteq> Some True"
    by (simp add: real_config_def)
  note inst = amount_and_recipient_unchecked [where req = ?req and routes = sample_routes
      and route = "route_of ''1000000''" and routes' = exact_routes and route' = "route_of ''1''"
      and payTo = payee and payTo' = "''0x0e''" and rt = sample_runtime and w = world0
      and h = ?h and pr = ?pr and a = "''0xa11c''" and addr = "Some (JStr ''0xa11c'')"
      and tx = sample_transaction and plan = "ByRest sample_submission"
      and txHash = "Some (JStr ''0xfeed'')" and ?w1.0 = ?w1 and config = real_config]
  have w2: "(net_send (WaitFor (Some (JStr ''0xfeed''))) ?w1)\<lparr>reads := Suc (reads ?w1)\<rparr> = ?w2"
    and at: "clock ?w1 (reads ?w1) = 1700000000000"
    by (simp_all add: world0_def net_send_def ticking_def)
  have mock: "createPaymentMiddleware payee sample_routes ''http://localhost:3001'' sample_runtime
        ?req world0 = (Next (Some ?mock), world0\<lparr>reads := 2\<rparr>)"
    using inst [where options = "''http://localhost:3001''"] m h p a t
    by (simp add: world0_def ticking_def dec_int_1700000000000 hash_of_def Buffer_hex_def
        utf8_def hex_byte_def hex_digit_def)
  then have u: "underpaid_outcome = (Next (Some ?mock), world0\<lparr>reads := 2\<rparr>)"
    by (simp add: underpaid_outcome_def)
  have mock': "createPaymentMiddleware ''0x0e'' exact_routes ''http://localhost:3001''
        sample_runtime ?req world0 = underpaid_outcome"
    using inst [where options = "''http://localhost:3001''" and v = "Some ?mock"
        and w' = "world0\<lparr>reads := 2\<rparr>"] m m' mock u
    by simp
  have real: "customPaymentMiddleware payee sample_routes ''http://localhost:4021'' sample_runtime
        ?req world0 = (Next (Some ?real), ?w2)"
    using inst [where options = "''http://localhost:4021''"] m h p a t pl s wt w2 at
    by simp
  then have ro: "real_outcome = (Next (Some ?real), ?w2)"
    by (simp add: real_outcome_def)
  have real': "customPaymentMiddleware ''0x0e'' exact_routes ''http://localhost:4021''
        sample_runtime ?req world0 = real_outcome"
    using inst [where options = "''http://localhost:4021''" and v = "Some ?real" and w' = ?w2]
      m m' real ro
    by simp
  have fc: "first_call = (?real, ?w2)"
    using inst [where options = "''http://localhost:4021''"] a t pl s wt r w2 at
    by (simp add: first_call_def sample_proof_def)
  have link: "real_outcome = (Next (Some (fst first_call)), snd first_call)"
    by (simp add: ro fc)
  from m m' h p a t pl s wt r u mock' fc link real' show ?thesis
    by blast
qed

text \<open>
  Claim C2 asks that a proof whose decoded amount is below the price of the route, or
  whose decoded recipient is not the payment address, is refused. The weather route costs
  1000000 minor units, payable to \<open>payee\<close>; the proof carries a transfer of 1 to the
  account \<open>0x0e\<close>. The gateway admits the request with a valid verification, in mock mode
  and in real mode, and \<open>processPayment\<close> in real mode answers \<open>isValid = true\<close>.
\<close>

theorem underpayment_counterexample:
  "price (route_of ''1000000'') = Price ''1000000''
   \<and> findMatchingRoute ''/weather'' sample_routes = Matched (route_of ''1000000'')
   \<and> transfer_amount sample_transaction = Some (JStr ''1'')
   \<and> transfer_recipient sample_transaction = Some (JObj [(''0'', JNum ''14'')])
   \<and> fst underpaid_outcome
       = Next (Some \<lparr>isValid = True,
                     transactionHash = Some (JStr ''0x30786131316331373030303030303030303030''),
                     error = None, verifiedAt = 1700000000001\<rparr>)
   \<and> fst real_outcome
       = Next (Some \<lparr>isValid = True, transactionHash = Some (JStr ''0xfeed''), error = None,
                     verifiedAt = 1700000000000\<rparr>)
   \<and> isValid (fst first_call)"
  by (simp add: weather_route route_of_def transfer_amount_def transfer_recipient_def
      sample_transaction_def prop_or_undefined_def underpaid_outcome_value real_outcome_value
      first_call_value)

theorem wildcard_matches_any_run_witness:
  "list_all (\<lambda>c. \<not> regex_special c \<and> c \<noteq> CHR ''*'' \<and> c \<noteq> CHR ''.'') ''/premium/''
   \<and> findMatchingRoute ''/premium/a/b'' [(''/premium/'' @ ''*'', route_of ''10000000'')]
       = Matched (route_of ''10000000'')"
  using wildcard_matches_any_run [of "''/premium/''" "''/premium/a/b''" "route_of ''10000000''"]
  by (simp add: regex_special_def line_terminator_def)

section \<open>Properties of the client\<close>

lemma set_header_keeps: "map_of hs k \<noteq> None \<Longrightarrow> map_of (set_header k' v hs) k \<noteq> None"
proof (induction hs)
  case Nil
  then show ?case by simp
next
  case (Cons kv hs)
  obtain a b where kv: "kv = (a, b)" by (cases kv)
  show ?case
  proof (cases "k = a")
    case True
    with kv show ?thesis by simp
  next
    case False
    with kv Cons show ?thesis by simp
  qed
qed

lemma spread_keeps: "map_of base k \<noteq> None \<Longrightarrow> map_of (spread base extra) k \<noteq> None"
proof (induction extra arbitrary: base)
  case Nil
  then show ?case by simp
next
  case (Cons kv extra)
  obtain a b where kv: "kv = (a, b)" by (cases kv)
  from Cons.prems have "map_of (set_header a b base) k \<noteq> None" by (rule set_header_keeps)
  then have "map_of (spread (set_header a b base) extra) k \<noteq> None" by (rule Cons.IH)
  with kv show ?case by simp
qed

lemma retry_config_shape:
  "map_of (req_headers (retry_config rt config url options signed now)) ''X-Payment'' \<noteq> None"
  "req_url (retry_config rt config url options signed now) = url"
proof -
  have "map_of (fixed_headers @ [(''X-Payment'', client_JSON_stringify rt (paymentProof signed now))])
          ''X-Payment'' \<noteq> None"
    by (simp add: fixed_headers_def)
  then have kept: "map_of (spread (fixed_headers
          @ [(''X-Payment'', client_JSON_stringify rt (paymentProof signed now))]) extra)
        ''X-Payment'' \<noteq> None" for extra
    by (rule spread_keeps)
  show "map_of (req_headers (retry_config rt config url options signed now)) ''X-Payment'' \<noteq> None"
    by (simp only: retry_config_def requestConfig_def http_request.simps kept not_False_eq_True)
  show "req_url (retry_config rt config url options signed now) = url"
    by (simp add: retry_config_def requestConfig_def)
qed

lemma axios_value:
  "axios rt c w =
     ((case http rt (http_log w) c of
         NoReply m \<Rightarrow> Inl (AxiosError m None)
       | HttpReply status statusText data \<Rightarrow>
           (if status < 500 then Inr (status, statusText, data)
            else Inl (AxiosError (''Request failed with status code '' @ dec_nat status)
                        (Some (status, statusText, data))))),
      w\<lparr>http_log := http_log w @ [c]\<rparr>)"
  by (simp add: axios_def)

lemma retryWithPayment_shape:
  "http_log (snd (retryWithPayment rt config url options signed w))
     = http_log w @ [retry_config rt config url options signed (clock w (reads w))]
   \<and> (\<forall>e. fst (retryWithPayment rt config url options signed w) = Inl e \<longrightarrow> (\<exists>je. e = Thrown je))
   \<and> (\<forall>txt d. http rt (http_log w) (retry_config rt config url options signed (clock w (reads w)))
                 = HttpReply 402 txt d \<longrightarrow>
         fst (retryWithPayment rt config url options signed w)
           = Inl (Thrown (new_Error ''Payment verification failed - server still requires payment'')))"
proof (cases "http rt (http_log w) (retry_config rt config url options signed (clock w (reads w)))")
  case (NoReply m)
  then show ?thesis
    by (simp add: retryWithPayment_def Date_now_def axios_value)
next
  case (HttpReply status statusText data)
  then show ?thesis
    by (simp add: retryWithPayment_def Date_now_def axios_value)
qed

lemma validatePaymentPayload_log:
  "http_log (snd (validatePaymentPayload rt payload w)) = http_log w"
  by (simp add: validatePaymentPayload_def Date_now_def split: sum.splits option.splits prod.splits)

lemma createPaymentTransaction_log:
  "http_log (snd (createPaymentTransaction rt account payload w)) = http_log w"
  by (simp add: createPaymentTransaction_def Date_now_def split: sum.splits prod.splits)

lemma prepare_payment_shape:
  "http_log (snd (prepare_payment rt account data w)) = http_log w
   \<and> (\<forall>e. fst (prepare_payment rt account data w) = Inl e \<longrightarrow> (\<exists>je. e = Thrown je))"
proof (cases "get_prop (Some data) ''payment''")
  case (Inl e)
  then show ?thesis by (simp add: prepare_payment_def)
next
  case (Inr payment)
  obtain ok w1 where v: "validatePaymentPayload rt payment w = (ok, w1)"
    by (cases "validatePaymentPayload rt payment w")
  with validatePaymentPayload_log [of rt payment w] have w1: "http_log w1 = http_log w" by simp
  obtain r w3 where c: "createPaymentTransaction rt account payment (snd (Date_now w1)) = (r, w3)"
    by (cases "createPaymentTransaction rt account payment (snd (Date_now w1))")
  with createPaymentTransaction_log [of rt account payment "snd (Date_now w1)"] w1
  have w3: "http_log w3 = http_log w" by (simp add: Date_now_def)
  from Inr v w1 c w3 show ?thesis
    by (cases ok; cases r) (auto simp add: prepare_payment_def Date_now_def split: prod.splits)
qed

lemma request_catch_Thrown:
  "request_catch rt config account url options (Thrown e) w = (Inl (Thrown e), w)"
  by (simp add: request_catch_def)


text \<open>
  Claim C9, as amended. \<open>request\<close> issues the request and then at most one more. When
  there is no reply, or the first reply has a status other than 402, nothing else is
  done and no payment is attempted: the data of a reply below 500 is returned, and for a
  missing reply or a status of 500 or more the \<open>AxiosError\<close> is thrown. On a first 402 the
  client prepares a payment (it checks the challenge and the balance and builds the
  proof); when that throws, the error is surfaced and no second request is made;
  otherwise the request is issued exactly once more, with an \<open>X-Payment\<close> header and to
  the same URL, and a 402 on that retry is surfaced as the error \<open>Payment verification
  failed - server still requires payment\<close>.
\<close>

theorem request_retries_at_most_once:
  fixes rt config account url options w
  defines "c1 \<equiv> requestConfig config url options fixed_headers"
  defines "w1 \<equiv> w\<lparr>http_log := http_log w @ [c1]\<rparr>"
  defines "run \<equiv> request rt config account url options w"
  shows
  "(case http rt (http_log w) c1 of
      NoReply m \<Rightarrow> run = (Inl (AxiosError m None), w1)
    | HttpReply status statusText data \<Rightarrow>
        (if status \<noteq> 402 then
           run = (if status < 500 then Inr data
                  else Inl (AxiosError (''Request failed with status code '' @ dec_nat status)
                              (Some (status, statusText, data))),
                  w1)
         else
           (case prepare_payment rt account data w1 of
              (Inl e, w2) \<Rightarrow> run = (Inl e, w2) \<and> http_log w2 = http_log w @ [c1]
            | (Inr signedTransaction, w2) \<Rightarrow>
                run = retryWithPayment rt config url options signedTransaction w2
                \<and> (\<exists>c2. http_log (snd run) = http_log w @ [c1, c2]
                       \<and> map_of (req_headers c2) ''X-Payment'' \<noteq> None \<and> req_url c2 = url
                       \<and> (\<forall>txt d. http rt (http_log w @ [c1]) c2 = HttpReply 402 txt d \<longrightarrow>
                             fst run = Inl (Thrown (new_Error
                               ''Payment verification failed - server still requires payment'')))))))"
proof (cases "http rt (http_log w) c1")
  case (NoReply m)
  then show ?thesis
    by (simp add: run_def request_def axios_value c1_def [symmetric] w1_def request_catch_def)
next
  case (HttpReply status statusText data)
  show ?thesis
  proof (cases "status = 402")
    case False
    with HttpReply show ?thesis
      by (simp add: run_def request_def axios_value c1_def [symmetric] w1_def request_catch_def)
  next
    case True
    obtain r w2 where prep: "prepare_payment rt account data w1 = (r, w2)"
      by (cases "prepare_payment rt account data w1")
    with prepare_payment_shape [of rt account data w1]
    have log2: "http_log w2 = http_log w @ [c1]"
      and thrown: "\<And>e. r = Inl e \<Longrightarrow> \<exists>je. e = Thrown je"
      by (simp_all add: w1_def)
    have handle: "run = (case handlePaymentRequired rt config account data url options w1 of
                     (Inl e, w3) \<Rightarrow> request_catch rt config account url options e w3
                   | (Inr d, w3) \<Rightarrow> (Inr d, w3))"
      using HttpReply True
      by (simp add: run_def request_def axios_value c1_def [symmetric] w1_def)
    show ?thesis
    proof (cases r)
      case (Inl e)
      with thrown obtain je where "e = Thrown je" by blast
      with Inl prep handle HttpReply True log2 show ?thesis
        by (simp add: handlePaymentRequired_def request_catch_Thrown)
    next
      case (Inr signedTransaction)
      let ?retry = "retryWithPayment rt config url options signedTransaction w2"
      let ?c2 = "retry_config rt config url options signedTransaction (clock w2 (reads w2))"
      from retryWithPayment_shape [of rt config url options signedTransaction w2]
      have rlog: "http_log (snd ?retry) = http_log w2 @ [?c2]"
        and rthrown: "\<And>e. fst ?retry = Inl e \<Longrightarrow> \<exists>je. e = Thrown je"
        and r402: "\<And>txt d. http rt (http_log w2) ?c2 = HttpReply 402 txt d \<Longrightarrow>
              fst ?retry = Inl (Thrown (new_Error
                ''Payment verification failed - server still requires payment''))"
        by blast+
      have run_retry: "run = ?retry"
      proof (cases ?retry)
        case (Pair rr w3)
        show ?thesis
        proof (cases rr)
          case (Inl e)
          with Pair rthrown obtain je where "e = Thrown je" by auto
          with Inl Pair Inr prep handle show ?thesis
            by (simp add: handlePaymentRequired_def request_catch_Thrown)
        next
          case (Inr d)
          with Pair \<open>r = Inr signedTransaction\<close> prep handle show ?thesis
            by (simp add: handlePaymentRequired_def)
        qed
      qed
      have "http_log (snd run) = http_log w @ [c1, ?c2]
            \<and> map_of (req_headers ?c2) ''X-Payment'' \<noteq> None \<and> req_url ?c2 = url
            \<and> (\<forall>txt d. http rt (http_log w @ [c1]) ?c2 = HttpReply 402 txt d \<longrightarrow>
                  fst run = Inl (Thrown (new_Error
                    ''Payment verification failed - server still requires payment'')))"
        using run_retry rlog log2 r402 retry_config_shape [of rt config url options signedTransaction]
        by simp
      then have "\<exists>c2. http_log (snd run) = http_log w @ [c1, c2]
            \<and> map_of (req_headers c2) ''X-Payment'' \<noteq> None \<and> req_url c2 = url
            \<and> (\<forall>txt d. http rt (http_log w @ [c1]) c2 = HttpReply 402 txt d \<longrightarrow>
                  fst run = Inl (Thrown (new_Error
                    ''Payment verification failed - server still requires payment'')))"
        by blast
      with Inr prep run_retry HttpReply True show ?thesis by simp
    qed
  qed
qed


lemma sample_client_runtime_sel:
  "http (sample_client_runtime server stringify) = server"
  "BigInt (sample_client_runtime server stringify) = decimal_BigInt"
  "less_eq_number (sample_client_runtime server stringify) = decimal_less_eq"
  "getAccountCoinAmount (sample_client_runtime server stringify)
     = (\<lambda>log addr tok. Inr 500000000)"
  "publicKey_of (sample_client_runtime server stringify) (account_privateKey sample_account)
     = Inr (account_publicKey sample_account)"
  "build_simple (sample_client_runtime server stringify)
     = (\<lambda>log sender tok rcpt amt. Inr client_transaction)"
  "stringify_transaction (sample_client_runtime server stringify) = stringify"
  by (simp_all add: sample_client_runtime_def)

lemma challenge_payment:
  "get_prop (Some (challenge_body t)) ''payment''
     = Inr (Some (JObj [(''amount'', JStr ''1000000''), (''token'', JStr AptosCoin),
                        (''recipient'', JStr (paymentAddress sample_server_config)),
                        (''deadline'', JNum t),
                        (''nonce'', JStr ''k3j9x2m1q0zk3j9x2m1q0z'')]))"
  by (simp add: challenge_body_def)

lemma amount_value: "decimal_BigInt (Some (JStr ''1000000'')) = Some 1000000"
  by (simp add: decimal_BigInt_def)

lemma fresh_compare:
  "\<not> decimal_less_eq (Some (JNum ''1700000300000'')) 1700000000000"
  "\<not> decimal_less_eq (Some (JNum ''1700000300000'')) 1700000000001"
  by (simp_all add: decimal_less_eq_def)

lemma fresh_prepare:
  "prepare_payment (demanding_server ''1700000300000'') sample_account
      (challenge_body ''1700000300000'') (client_world0\<lparr>http_log := [first_request]\<rparr>)
     = (Inr \<lparr>rawTransaction = json_text client_transaction,
             signed_signature
               = ''0x'' @ Buffer_hex (account_address sample_account @ dec_int 1700000000002),
             signed_publicKey = account_publicKey sample_account,
             signed_address = account_address sample_account\<rparr>,
        \<lparr>clock = ticking, reads = 3, http_log = [first_request]\<rparr>)"
  by (simp add: prepare_payment_def challenge_payment validatePaymentPayload_def
      prop_or_undefined_def AptosCoin_def sample_server_config_def demanding_server_def
      sample_client_runtime_sel amount_value Date_now_def client_world0_def ticking_def
      fresh_compare checkBalance_def createPaymentTransaction_def printing_def)

lemma unprinted_prepare:
  "prepare_payment (demanding_server_unprinted ''1700000300000'') sample_account
      (challenge_body ''1700000300000'') (client_world0\<lparr>http_log := [first_request]\<rparr>)
     = (Inl (Thrown (new_Error ''Do not know how to serialize a BigInt'')),
        \<lparr>clock = ticking, reads = 3, http_log = [first_request]\<rparr>)"
  by (simp add: prepare_payment_def challenge_payment validatePaymentPayload_def
      prop_or_undefined_def AptosCoin_def sample_server_config_def demanding_server_unprinted_def
      sample_client_runtime_sel amount_value Date_now_def client_world0_def ticking_def
      fresh_compare checkBalance_def createPaymentTransaction_def not_printing_def)

lemma dec_nat_503: "dec_nat 503 = ''503''"
  by (simp add: dec_nat.simps)

text \<open>
  Claim C9 asks that a first response with a status other than 402 is returned to the
  caller. The client hands \<open>axios\<close> the test \<open>status < 500\<close> for the statuses it accepts, so
  a first reply of 500 or more is not returned: here the server answers 503, and
  \<open>request\<close> throws the \<open>AxiosError\<close> of the transport, after the one request.
\<close>

theorem server_error_counterexample:
  "http unavailable_server (http_log client_world0) first_request
     = HttpReply 503 ''Service Unavailable'' unavailable_body
   \<and> unavailable_run
       = (Inl (AxiosError ''Request failed with status code 503''
                 (Some (503, ''Service Unavailable'', unavailable_body))),
          \<lparr>clock = ticking, reads = 0, http_log = [first_request]\<rparr>)"
  by (simp add: unavailable_run_def request_def axios_value first_request_def [symmetric]
      unavailable_server_def sample_client_runtime_sel request_catch_def client_world0_def
      dec_nat_503)

theorem request_retries_at_most_once_witness:
  "http (demanding_server ''1700000300000'') (http_log client_world0) first_request
     = HttpReply 402 ''Payment Required'' (challenge_body ''1700000300000'')
   \<and> fst refused_run
       = Inl (Thrown (new_Error ''Payment verification failed - server still requires payment''))
   \<and> length (http_log (snd refused_run)) = 2
   \<and> http (demanding_server_unprinted ''1700000300000'') (http_log client_world0) first_request
     = HttpReply 402 ''Payment Required'' (challenge_body ''1700000300000'')
   \<and> unprinted_run
       = (Inl (Thrown (new_Error ''Do not know how to serialize a BigInt'')),
          \<lparr>clock = ticking, reads = 3, http_log = [first_request]\<rparr>)"
proof -
  let ?rt = "demanding_server ''1700000300000''"
  let ?rt' = "demanding_server_unprinted ''1700000300000''"
  have reply: "http ?rt log c = HttpReply 402 ''Payment Required'' (challenge_body ''1700000300000'')"
    for log c
    by (simp add: demanding_server_def sample_client_runtime_sel)
  have reply': "http ?rt' log c = HttpReply 402 ''Payment Required'' (challenge_body ''1700000300000'')"
    for log c
    by (simp add: demanding_server_unprinted_def sample_client_runtime_sel)
  have empty: "http_log client_world0 = []"
    by (simp add: client_world0_def)
  have prep: "prepare_payment ?rt sample_account (challenge_body ''1700000300000'')
      (client_world0\<lparr>http_log := http_log client_world0 @ [first_request]\<rparr>)
     = (Inr \<lparr>rawTransaction = json_text client_transaction,
             signed_signature
               = ''0x'' @ Buffer_hex (account_address sample_account @ dec_int 1700000000002),
             signed_publicKey = account_publicKey sample_account,
             signed_address = account_address sample_account\<rparr>,
        \<lparr>clock = ticking, reads = 3, http_log = [first_request]\<rparr>)"
    using fresh_prepare by (simp add: empty)
  have prep': "prepare_payment ?rt' sample_account (challenge_body ''1700000300000'')
      (client_world0\<lparr>http_log := http_log client_world0 @ [first_request]\<rparr>)
     = (Inl (Thrown (new_Error ''Do not know how to serialize a BigInt'')),
        \<lparr>clock = ticking, reads = 3, http_log = [first_request]\<rparr>)"
    using unprinted_prepare by (simp add: empty)
  from request_retries_at_most_once [where rt = ?rt and w = client_world0
      and config = sample_client_config and url = weather_url and options = no_options
      and account = sample_account, folded first_request_def refused_run_def]
  have retried: "(\<exists>c2. http_log (snd refused_run) = http_log client_world0 @ [first_request, c2])
      \<and> fst refused_run = Inl (Thrown (new_Error
            ''Payment verification failed - server still requires payment''))"
    by (auto simp add: reply prep)
  from request_retries_at_most_once [where rt = ?rt' and w = client_world0
      and config = sample_client_config and url = weather_url and options = no_options
      and account = sample_account, folded first_request_def unprinted_run_def]
  have surfaced: "unprinted_run
       = (Inl (Thrown (new_Error ''Do not know how to serialize a BigInt'')),
          \<lparr>clock = ticking, reads = 3, http_log = [first_request]\<rparr>)"
    by (simp add: reply' prep')
  from retried surfaced reply reply' empty show ?thesis by auto
qed

end
